theory Spec2Isabelle
  imports Complex_Main "HOL-Library.Char_ord" "HOL-Library.List_Lexorder" "HOL-Library.Multiset"
begin

section \<open>JavaScript strings\<close>

text \<open>
  Strings are lists of characters.  The model covers ASCII text: \<open>toLowerCase\<close>
  folds the letters A to Z and leaves every other character alone, and \<open>trim\<close>
  strips the ASCII white space characters.
\<close>

definition toLowerChar :: "char \<Rightarrow> char" where
  "toLowerChar c =
     (case map_of (zip ''ABCDEFGHIJKLMNOPQRSTUVWXYZ'' ''abcdefghijklmnopqrstuvwxyz'') c of
        Some l \<Rightarrow> l
      | None \<Rightarrow> c)"

definition toLowerCase :: "string \<Rightarrow> string" where
  "toLowerCase s = map toLowerChar s"

definition isSpace :: "char \<Rightarrow> bool" where
  "isSpace c = (c \<in> set [CHR '' '', CHR 0x09, CHR 0x0A, CHR 0x0B, CHR 0x0C, CHR 0x0D])"

definition trimStart :: "string \<Rightarrow> string" where
  "trimStart s = dropWhile isSpace s"

definition trimEnd :: "string \<Rightarrow> string" where
  "trimEnd s = rev (dropWhile isSpace (rev s))"

definition trim :: "string \<Rightarrow> string" where
  "trim s = trimEnd (trimStart s)"

text \<open>\<open>s.includes(t)\<close>: \<open>t\<close> occurs in \<open>s\<close> as a contiguous run.\<close>

fun startsWith :: "string \<Rightarrow> string \<Rightarrow> bool" where
  "startsWith s [] = True"
| "startsWith [] (d # t) = False"
| "startsWith (c # s) (d # t) = (c = d \<and> startsWith s t)"

fun includes_str :: "string \<Rightarrow> string \<Rightarrow> bool" where
  "includes_str [] t = (t = [])"
| "includes_str (c # s) t = (startsWith (c # s) t \<or> includes_str s t)"

text \<open>\<open>s.split(sep)\<close> for a one-character separator; the result is never empty.\<close>

fun split :: "char \<Rightarrow> string \<Rightarrow> string list" where
  "split sep [] = [[]]"
| "split sep (c # s) =
     (if c = sep then [] # split sep s
      else (case split sep s of p # ps \<Rightarrow> (c # p) # ps | [] \<Rightarrow> [[c]]))"

text \<open>Array destructuring \<open>[a, b] = xs\<close>: a missing position is \<open>undefined\<close>.\<close>

fun item :: "'a list \<Rightarrow> nat \<Rightarrow> 'a option" where
  "item [] i = None"
| "item (x # xs) 0 = Some x"
| "item (x # xs) (Suc i) = item xs i"

fun join :: "string \<Rightarrow> string list \<Rightarrow> string" where
  "join sep [] = []"
| "join sep [s] = s"
| "join sep (s # t # ss) = s @ sep @ join sep (t # ss)"

text \<open>Decimal rendering of integers, as a template literal does it.\<close>

function showNat :: "nat \<Rightarrow> string" where
  "showNat n =
     (if n < 10 then [''0123456789'' ! n]
      else showNat (n div 10) @ [''0123456789'' ! (n mod 10)])"
  by pat_completeness auto
termination
  by (relation "measure id") auto

declare showNat.simps [simp del]

definition showInt :: "int \<Rightarrow> string" where
  "showInt i = (if i < 0 then ''-'' @ showNat (nat (- i)) else showNat (nat i))"

text \<open>Truthiness of an optional string: \<open>undefined\<close> and the empty string are falsy.\<close>

fun truthy :: "string option \<Rightarrow> bool" where
  "truthy None = False"
| "truthy (Some s) = (s \<noteq> [])"

section \<open>Trades\<close>

text \<open>
  \<open>MasterDexTrade\<close>, with the fields the tool reads.  Numbers are rationals.  The field
  \<open>time\<close> holds the instant the date string denotes, in milliseconds since the epoch
  (what \<open>new Date(trade.time).getTime()\<close> gives for a valid date).  The symbols and
  the chain are optional, since the code guards every read of them.  The other fields are
  as the interface declares them: a record whose \<open>transType\<close> is no string, or whose
  \<open>tnxvalue\<close> is no number, is not a trade of this model.
\<close>

record trade =
  transType :: string
  price :: rat
  blockNumber :: rat
  amountBase :: rat
  amountQuote :: "rat option"
  symbol0 :: "string option"
  symbol1 :: "string option"
  token0Price :: rat
  token1Price :: rat
  tnxvalue :: rat
  account :: string
  bottrade :: bool
  txnDetail :: string
  time :: int
  pairId :: string
  feeTier :: rat
  chain :: "string option"

section \<open>The network\<close>

text \<open>
  A value that is thrown is an \<open>Error\<close> object with a name and a message, or something
  that is not an \<open>Error\<close>.
\<close>

datatype thrown = Error (name: string) (message: string) | NonError

text \<open>
  A response carries its status line and its body.  The body either does not parse as
  JSON (then \<open>response.json()\<close> rejects with a \<open>SyntaxError\<close>), or parses to something
  without an array under \<open>data\<close>, or parses to an array of trades.
\<close>

datatype payload = Unparsable string | Malformed | Payload "trade list"

record response =
  status :: nat
  statusText :: string
  body :: payload

definition ok :: "response \<Rightarrow> bool" where
  "ok r = (200 \<le> status r \<and> status r \<le> 299)"

definition json :: "response \<Rightarrow> thrown + trade list option" where
  "json r =
     (case body r of
        Unparsable m \<Rightarrow> Inl (Error ''SyntaxError'' m)
      | Malformed \<Rightarrow> Inr None
      | Payload ts \<Rightarrow> Inr (Some ts))"

text \<open>
  One call of \<open>fetch\<close> settles with a response or rejects; a request that has not
  settled after ten seconds is aborted and rejects with an \<open>AbortError\<close>.  The network is
  a function from the URL and the number of the attempt to what that request does.
\<close>

datatype fetched = Responds response | Throws thrown

type_synonym network = "string \<Rightarrow> nat \<Rightarrow> fetched"

text \<open>The effects of a call, in order: requests sent and delays slept (milliseconds).\<close>

datatype event = Request string | Sleep nat

section \<open>fetchWithRetry\<close>

text \<open>
  The loop runs the attempts from 1 to \<open>maxRetries\<close>; \<open>fetchWithRetry\<close> is the call with
  the default arguments (three attempts, a first delay of 1000 ms), the only way the tool
  calls it.
\<close>

definition errorMessage :: "thrown \<Rightarrow> string \<Rightarrow> string" where
  "errorMessage error fallback = (case error of Error n m \<Rightarrow> m | NonError \<Rightarrow> fallback)"

definition isConnectionError :: "thrown \<Rightarrow> bool" where
  "isConnectionError error =
     (case error of
        Error n m \<Rightarrow>
          includes_str m ''ECONNRESET'' \<or> includes_str m ''ENOTFOUND'' \<or> includes_str m ''ETIMEDOUT'' \<or>
          includes_str m ''fetch'' \<or> n = ''AbortError''
      | NonError \<Rightarrow> False)"

text \<open>
  The body of the \<open>try\<close> block: the request, then the test of \<open>response.ok\<close>.  What
  it throws goes to the \<open>catch\<close> block of the same attempt.
\<close>

definition attempt_once :: "network \<Rightarrow> string \<Rightarrow> nat \<Rightarrow> thrown + response" where
  "attempt_once net url attempt =
     (case net url attempt of
        Throws error \<Rightarrow> Inl error
      | Responds r \<Rightarrow>
          if ok r then Inr r
          else Inl (Error ''Error'' (''HTTP '' @ showNat (status r) @ '': '' @ statusText r)))"

function fetchWithRetry_from ::
  "network \<Rightarrow> string \<Rightarrow> nat \<Rightarrow> nat \<Rightarrow> nat \<Rightarrow> (thrown + response) \<times> event list" where
  "fetchWithRetry_from net url maxRetries attempt delay =
     (if attempt \<le> maxRetries then
        (case attempt_once net url attempt of
           Inr r \<Rightarrow> (Inr r, [Request url])
         | Inl error \<Rightarrow>
             if attempt = maxRetries then
               (Inl (Error ''Error''
                   (''Failed after '' @ showNat maxRetries @ '' attempts. Last error: '' @
                    errorMessage error ''Unknown error'')),
                [Request url])
             else if isConnectionError error then
               (let (res, evs) = fetchWithRetry_from net url maxRetries (attempt + 1) (delay * 2)
                in (res, Request url # Sleep delay # evs))
             else (Inl error, [Request url]))
      else (Inl (Error ''Error'' ''Unexpected error in fetchWithRetry''), []))"
  by pat_completeness auto
termination
  by (relation "measure (\<lambda>(net, url, maxRetries, attempt, delay). Suc maxRetries - attempt)") auto

declare fetchWithRetry_from.simps [simp del]

definition fetchWithRetry :: "network \<Rightarrow> string \<Rightarrow> (thrown + response) \<times> event list" where
  "fetchWithRetry net url = fetchWithRetry_from net url 3 1 1000"

section \<open>Formatting a trade\<close>

text \<open>
  What the tool reads from its surroundings: the network, the clock (milliseconds since
  the epoch; one call reads one instant), and the host's locale renderers behind
  \<open>toLocaleString\<close> for numbers and for dates.
\<close>

record env =
  fetch :: network
  now :: int
  localeNumber :: "rat \<Rightarrow> string"
  localeDate :: "int \<Rightarrow> string"

definition getTimeAgo :: "int \<Rightarrow> int \<Rightarrow> string" where
  "getTimeAgo nowMs timeMs =
     (let diffInSeconds = (nowMs - timeMs) div 1000 in
      if diffInSeconds < 60 then showInt diffInSeconds @ ''s ago''
      else if diffInSeconds < 3600 then showInt (diffInSeconds div 60) @ ''m ago''
      else if diffInSeconds < 86400 then showInt (diffInSeconds div 3600) @ ''h ago''
      else showInt (diffInSeconds div 86400) @ ''d ago'')"

text \<open>A template literal renders a missing value as the word \<open>undefined\<close>.\<close>

definition template :: "string option \<Rightarrow> string" where
  "template s = (case s of None \<Rightarrow> ''undefined'' | Some x \<Rightarrow> x)"

record formatted =
  f_pair :: string
  f_type :: string
  f_value :: string
  f_amountBase :: rat
  f_amountQuote :: "rat option"
  f_price :: rat
  f_token0Price :: rat
  f_token1Price :: rat
  f_account :: string
  f_transactionHash :: string
  f_blockNumber :: rat
  f_time :: string
  f_age :: string
  f_chain :: "string option"
  f_isBotTrade :: bool
  f_pairId :: string
  f_feeTier :: rat
  f_raw :: trade

definition formatTradeData :: "env \<Rightarrow> trade \<Rightarrow> formatted" where
  "formatTradeData e trade =
     \<lparr>f_pair = template (symbol0 trade) @ ''/'' @ template (symbol1 trade),
      f_type = transType trade,
      f_value = ''$'' @ localeNumber e (tnxvalue trade),
      f_amountBase = amountBase trade,
      f_amountQuote = amountQuote trade,
      f_price = price trade,
      f_token0Price = token0Price trade,
      f_token1Price = token1Price trade,
      f_account = account trade,
      f_transactionHash = txnDetail trade,
      f_blockNumber = blockNumber trade,
      f_time = localeDate e (time trade),
      f_age = getTimeAgo (now e) (time trade),
      f_chain = chain trade,
      f_isBotTrade = bottrade trade,
      f_pairId = pairId trade,
      f_feeTier = feeTier trade,
      f_raw = trade\<rparr>"

section \<open>getUniqueSymbols\<close>

text \<open>\<open>if (s) symbols.add(s)\<close> on a set that keeps insertion order.\<close>

definition addSymbol :: "string option \<Rightarrow> string list \<Rightarrow> string list" where
  "addSymbol s symbols =
     (case s of
        None \<Rightarrow> symbols
      | Some x \<Rightarrow> if x \<noteq> [] \<and> x \<notin> set symbols then symbols @ [x] else symbols)"

definition getUniqueSymbols :: "trade list \<Rightarrow> string list" where
  "getUniqueSymbols trades =
     sort (foldl (\<lambda>symbols trade. addSymbol (symbol1 trade) (addSymbol (symbol0 trade) symbols))
             [] trades)"

section \<open>searchTokenAcrossChains\<close>

definition supportedChains :: "string list" where
  "supportedChains =
     [''ethereum'', ''base'', ''optimism'', ''polygon'', ''arbitrum'', ''bnb'', ''blast'']"

definition multiChainEndpoint :: string where
  "multiChainEndpoint = ''https://api.masterdex.xyz/v1/pairs/getbigSwaps''"

definition endpoint :: "string \<Rightarrow> string" where
  "endpoint chainName = multiChainEndpoint @ ''/'' @ chainName"

text \<open>\<open>trade.symbol0?.toLowerCase() || ''\<close>\<close>

definition lowerOrEmpty :: "string option \<Rightarrow> string" where
  "lowerOrEmpty s = (case s of None \<Rightarrow> [] | Some x \<Rightarrow> toLowerCase x)"

definition tokenMatches :: "string \<Rightarrow> trade \<Rightarrow> bool" where
  "tokenMatches tokenLower trade =
     (let symbol0Lower = lowerOrEmpty (symbol0 trade);
          symbol1Lower = lowerOrEmpty (symbol1 trade)
      in includes_str symbol0Lower tokenLower \<or> includes_str symbol1Lower tokenLower)"

text \<open>
  The loop over the chains.  A chain whose fetch or whose JSON decoding throws lands in
  the \<open>catch\<close> block, which only logs and marks the chain as checked.
\<close>

fun searchChains ::
  "network \<Rightarrow> string \<Rightarrow> string list \<Rightarrow> trade list \<Rightarrow> string list \<Rightarrow> event list \<Rightarrow>
   (trade list \<times> string list) \<times> event list" where
  "searchChains net token [] allResults chainsChecked evs = ((allResults, chainsChecked), evs)"
| "searchChains net token (chainName # rest) allResults chainsChecked evs =
     (case fetchWithRetry net (endpoint chainName) of
        (Inl error, ev) \<Rightarrow>
          searchChains net token rest allResults (chainsChecked @ [chainName]) (evs @ ev)
      | (Inr response, ev) \<Rightarrow>
          (case json response of
             Inl error \<Rightarrow>
               searchChains net token rest allResults (chainsChecked @ [chainName]) (evs @ ev)
           | Inr None \<Rightarrow>
               searchChains net token rest allResults (chainsChecked @ [chainName]) (evs @ ev)
           | Inr (Some data) \<Rightarrow>
               (let tokenLower = trim (toLowerCase token);
                    chainResults = filter (tokenMatches tokenLower) data
                in searchChains net token rest
                     (if length chainResults > 0 then allResults @ chainResults else allResults)
                     (chainsChecked @ [chainName]) (evs @ ev))))"

definition searchTokenAcrossChains ::
  "network \<Rightarrow> string \<Rightarrow> int \<Rightarrow> (trade list \<times> string list) \<times> event list" where
  "searchTokenAcrossChains net token limit = searchChains net token supportedChains [] [] []"

section \<open>The tool: masterdexBigSwapsTool.execute\<close>

text \<open>
  The parameters of the call.  The schema makes each of them optional; \<open>limit\<close> is
  taken at whole numbers.
\<close>

record query =
  q_chain :: "string option"
  q_token :: "string option"
  q_pair :: "string option"
  q_minValue :: "rat option"
  q_limit :: "int option"
  q_tradeType :: "string option"

text \<open>\<open>x || d\<close> on an optional string.\<close>

definition orElse :: "string option \<Rightarrow> string \<Rightarrow> string" where
  "orElse x d = (case x of None \<Rightarrow> d | Some s \<Rightarrow> if s \<noteq> [] then s else d)"

text \<open>The default parameter \<open>limit = 20\<close>.\<close>

definition limitOf :: "query \<Rightarrow> int" where
  "limitOf q = (case q_limit q of None \<Rightarrow> 20 | Some l \<Rightarrow> l)"

text \<open>
  Fetching one endpoint and checking the shape of its body, as the chain-specific branch
  and the multi-chain branch both do.
\<close>

definition fetchData :: "network \<Rightarrow> string \<Rightarrow> (thrown + trade list) \<times> event list" where
  "fetchData net url =
     (case fetchWithRetry net url of
        (Inl error, evs) \<Rightarrow> (Inl error, evs)
      | (Inr response, evs) \<Rightarrow>
          (case json response of
             Inl error \<Rightarrow> (Inl error, evs)
           | Inr None \<Rightarrow> (Inl (Error ''Error'' ''Invalid response format from MasterDex API''), evs)
           | Inr (Some data) \<Rightarrow> (Inr data, evs)))"

text \<open>
  The chain selection: the records fetched, the \<open>url\<close> reported and the chains
  checked, or the error that leaves the \<open>try\<close> block.
\<close>

definition selectSource ::
  "network \<Rightarrow> query \<Rightarrow> (thrown + trade list \<times> string \<times> string list) \<times> event list" where
  "selectSource net q =
     (if truthy (q_chain q) then
        (let chainName = orElse (q_chain q) [];
             url = endpoint chainName
         in case fetchData net url of
              (Inl error, evs) \<Rightarrow> (Inl error, evs)
            | (Inr data, evs) \<Rightarrow> (Inr (data, url, [chainName]), evs))
      else if truthy (q_token q) \<and> \<not> truthy (q_pair q) then
        (case searchTokenAcrossChains net (orElse (q_token q) []) (limitOf q) of
           ((results, chainsChecked), evs) \<Rightarrow>
             (Inr (results, ''multi-chain-search'', chainsChecked), evs))
      else
        (case fetchData net multiChainEndpoint of
           (Inl error, evs) \<Rightarrow> (Inl error, evs)
         | (Inr data, evs) \<Rightarrow> (Inr (data, multiChainEndpoint, [''multi-chain'']), evs)))"

subsection \<open>The filter stages\<close>

definition tokenFilter :: "string \<Rightarrow> trade list \<Rightarrow> trade list" where
  "tokenFilter token results = filter (tokenMatches (trim (toLowerCase token))) results"

definition tokenStage :: "query \<Rightarrow> trade list \<Rightarrow> trade list" where
  "tokenStage q results =
     (if truthy (q_token q) \<and> truthy (q_chain q)
      then tokenFilter (orElse (q_token q) []) results else results)"

definition pairMatch :: "string option \<Rightarrow> string option \<Rightarrow> trade \<Rightarrow> bool" where
  "pairMatch a b trade =
     (let s0 = lowerOrEmpty (symbol0 trade);
          s1 = lowerOrEmpty (symbol1 trade)
      in (Some s0 = a \<and> Some s1 = b) \<or> (Some s0 = b \<and> Some s1 = a))"

definition pairFilter :: "string \<Rightarrow> trade list \<Rightarrow> trade list" where
  "pairFilter pair results =
     (let pairLower = trim (toLowerCase pair);
          parts = split (CHR ''/'') pairLower;
          a = item parts 0;
          b = item parts 1
      in filter (pairMatch a b) results)"

definition pairStage :: "query \<Rightarrow> trade list \<Rightarrow> trade list" where
  "pairStage q results =
     (if truthy (q_pair q) then pairFilter (orElse (q_pair q) []) results else results)"

definition tradeTypeStage :: "query \<Rightarrow> trade list \<Rightarrow> trade list" where
  "tradeTypeStage q results =
     (if truthy (q_tradeType q)
      then filter (\<lambda>trade. toLowerCase (transType trade) =
                            toLowerCase (orElse (q_tradeType q) [])) results
      else results)"

definition minValueStage :: "query \<Rightarrow> trade list \<Rightarrow> trade list" where
  "minValueStage q results =
     (case q_minValue q of
        None \<Rightarrow> results
      | Some minValue \<Rightarrow>
          if minValue \<noteq> 0 then filter (\<lambda>trade. tnxvalue trade \<ge> minValue) results
          else results)"

definition applyFilters :: "query \<Rightarrow> trade list \<Rightarrow> trade list" where
  "applyFilters q results = minValueStage q (tradeTypeStage q (pairStage q (tokenStage q results)))"

subsection \<open>Sorting, truncating, grouping\<close>

text \<open>
  \<open>Array.prototype.sort\<close> is stable; with the comparator \<open>time(b) - time(a)\<close> it
  orders by time, latest first, and keeps records of equal time in their order.
\<close>

definition sortByTime :: "trade list \<Rightarrow> trade list" where
  "sortByTime results = sort_key (\<lambda>trade. - time trade) results"

definition limitStage :: "int \<Rightarrow> trade list \<Rightarrow> trade list" where
  "limitStage limit results =
     (if limit \<noteq> 0 \<and> limit > 0 then take (nat limit) results else results)"

text \<open>
  The grouping reduces into an object that starts as \<open>{}\<close>.  Such an object has no
  property of its own but inherits the members of \<open>Object.prototype\<close>.  For a chain name,
  \<open>acc[chainName]\<close> finds the array the object already owns under that name; or an
  inherited member, which is truthy, so that no array is made, and which has no \<open>push\<close>,
  so that the call throws a \<open>TypeError\<close>; or nothing, and then an empty array is made
  first.  The object is a map from names to arrays; the order in which an object lists its
  keys is not part of the model.
\<close>

definition objectPrototypeKeys :: "string list" where
  "objectPrototypeKeys =
     [''constructor'', ''__defineGetter__'', ''__defineSetter__'', ''hasOwnProperty'',
      ''__lookupGetter__'', ''__lookupSetter__'', ''isPrototypeOf'', ''propertyIsEnumerable'',
      ''toString'', ''valueOf'', ''__proto__'', ''toLocaleString'']"

definition pushError :: thrown where
  "pushError = Error ''TypeError'' ''acc[chainName].push is not a function''"

definition pushByChain ::
  "string \<Rightarrow> 'a \<Rightarrow> (string \<rightharpoonup> 'a list) \<Rightarrow> thrown + (string \<rightharpoonup> 'a list)" where
  "pushByChain k v acc =
     (case acc k of
        Some vs \<Rightarrow> Inr (acc(k \<mapsto> vs @ [v]))
      | None \<Rightarrow>
          if k \<in> set objectPrototypeKeys then Inl pushError
          else Inr (acc(k \<mapsto> [v])))"

definition chainNameOf :: "query \<Rightarrow> trade \<Rightarrow> string" where
  "chainNameOf q trade = orElse (chain trade) (orElse (q_chain q) ''unknown'')"

fun groupFrom ::
  "env \<Rightarrow> query \<Rightarrow> trade list \<Rightarrow> (string \<rightharpoonup> formatted list) \<Rightarrow>
   thrown + (string \<rightharpoonup> formatted list)" where
  "groupFrom e q [] acc = Inr acc"
| "groupFrom e q (trade # rest) acc =
     (case pushByChain (chainNameOf q trade) (formatTradeData e trade) acc of
        Inl error \<Rightarrow> Inl error
      | Inr acc' \<Rightarrow> groupFrom e q rest acc')"

definition groupByChain ::
  "env \<Rightarrow> query \<Rightarrow> trade list \<Rightarrow> thrown + (string \<rightharpoonup> formatted list)" where
  "groupByChain e q results = groupFrom e q results Map.empty"

subsection \<open>The two envelopes\<close>

record filters =
  flt_chain :: string
  flt_token :: string
  flt_pair :: string
  flt_minValue :: "rat option"
  flt_tradeType :: string
  flt_limit :: int

text \<open>
  The success envelope.  \<open>r_timestamp\<close> is the instant whose ISO rendering the code
  returns.  In \<open>flt_minValue\<close>, \<open>None\<close> stands for the string \<open>none\<close>.
\<close>

record responseData =
  r_success :: bool
  r_data :: "formatted list"
  r_dataByChain :: "string \<rightharpoonup> formatted list"
  r_count :: nat
  r_totalFetched :: nat
  r_message :: string
  r_source :: string
  r_url :: string
  r_supportedChains :: "string list"
  r_filteredChain :: string
  r_endpointUsed :: string
  r_chainsChecked :: "string list"
  r_filters :: filters
  r_availableSymbols :: "string list"
  r_timestamp :: int

record failureData =
  e_success :: bool
  e_error :: string
  e_url :: string
  e_timestamp :: int
  e_suggestion :: string

datatype envelope = Success responseData | Failure failureData

text \<open>The object returned at the end of the \<open>try\<close> block, given the grouping.\<close>

definition respond ::
  "env \<Rightarrow> query \<Rightarrow> trade list \<Rightarrow> string \<Rightarrow> string list \<Rightarrow>
   (string \<rightharpoonup> formatted list) \<Rightarrow> responseData" where
  "respond e q fetched url chainsChecked resultsByChain =
     (let availableSymbols = getUniqueSymbols fetched;
          results = limitStage (limitOf q) (sortByTime (applyFilters q fetched))
      in \<lparr>r_success = True,
          r_data = map (formatTradeData e) results,
          r_dataByChain = resultsByChain,
          r_count = length results,
          r_totalFetched = length results,
          r_message =
            (if length results > 0
             then ''Found '' @ showNat (length results) @ '' trades matching your criteria''
             else ''No trades found matching your criteria. Available symbols: '' @
                  join '', '' (take 10 availableSymbols)),
          r_source = ''MasterDex'',
          r_url = url,
          r_supportedChains = supportedChains,
          r_filteredChain = orElse (q_chain q) ''all'',
          r_endpointUsed =
            (if truthy (q_chain q) then ''chain-specific ('' @ orElse (q_chain q) [] @ '')''
             else if url = ''multi-chain-search'' then ''cross-chain-search''
             else ''multi-chain''),
          r_chainsChecked = chainsChecked,
          r_filters =
            \<lparr>flt_chain = orElse (q_chain q) ''all'',
             flt_token = orElse (q_token q) ''none'',
             flt_pair = orElse (q_pair q) ''none'',
             flt_minValue = (case q_minValue q of
                               None \<Rightarrow> None
                             | Some v \<Rightarrow> if v \<noteq> 0 then Some v else None),
             flt_tradeType = orElse (q_tradeType q) ''all'',
             flt_limit = limitOf q\<rparr>,
          r_availableSymbols = take 20 availableSymbols,
          r_timestamp = now e\<rparr>)"

text \<open>
  The rest of the \<open>try\<close> block once the records are fetched: the filters, the order,
  the limit, the grouping, which can throw, and the object returned.
\<close>

definition finish ::
  "env \<Rightarrow> query \<Rightarrow> trade list \<Rightarrow> string \<Rightarrow> string list \<Rightarrow> thrown + responseData" where
  "finish e q fetched url chainsChecked =
     (let results = limitStage (limitOf q) (sortByTime (applyFilters q fetched))
      in case groupByChain e q results of
           Inl error \<Rightarrow> Inl error
         | Inr resultsByChain \<Rightarrow> Inr (respond e q fetched url chainsChecked resultsByChain))"

text \<open>The object returned by the \<open>catch\<close> block.\<close>

definition failed :: "env \<Rightarrow> query \<Rightarrow> thrown \<Rightarrow> failureData" where
  "failed e q error =
     \<lparr>e_success = False,
      e_error = errorMessage error ''Unknown error occurred'',
      e_url = (if truthy (q_chain q) then endpoint (orElse (q_chain q) [])
               else multiChainEndpoint),
      e_timestamp = now e,
      e_suggestion = ''Please try again in a few moments. If the issue persists, the MasterDex API might be temporarily unavailable.''\<rparr>"

text \<open>
  The call: the \<open>try\<close> block throws when the chain selection throws or when the grouping
  throws, and the \<open>catch\<close> block turns what was thrown into the failure envelope.
\<close>

definition tryBlock :: "env \<Rightarrow> query \<Rightarrow> (thrown + responseData) \<times> event list" where
  "tryBlock e q =
     (case selectSource (fetch e) q of
        (Inl error, evs) \<Rightarrow> (Inl error, evs)
      | (Inr (fetched, url, chainsChecked), evs) \<Rightarrow> (finish e q fetched url chainsChecked, evs))"

definition execute :: "env \<Rightarrow> query \<Rightarrow> envelope \<times> event list" where
  "execute e q =
     (case tryBlock e q of
        (Inl error, evs) \<Rightarrow> (Failure (failed e q error), evs)
      | (Inr r, evs) \<Rightarrow> (Success r, evs))"

section \<open>Observations on a call\<close>

text \<open>A field of the success envelope, when the call succeeded.\<close>

definition onSuccess :: "(responseData \<Rightarrow> 'a) \<Rightarrow> envelope \<Rightarrow> 'a option" where
  "onSuccess f v = (case v of Success r \<Rightarrow> Some (f r) | Failure x \<Rightarrow> None)"

text \<open>A field of the failure envelope, when the call failed.\<close>

definition onFailure :: "(failureData \<Rightarrow> 'a) \<Rightarrow> envelope \<Rightarrow> 'a option" where
  "onFailure f v = (case v of Success r \<Rightarrow> None | Failure x \<Rightarrow> Some (f x))"

text \<open>
  What one chain adds to the cross-chain search: the records of its answer that match the
  token, and nothing when its fetch or the decoding of its body fails.
\<close>

definition chainHits :: "network \<Rightarrow> string \<Rightarrow> string \<Rightarrow> trade list" where
  "chainHits net token chainName =
     (case fetchWithRetry net (endpoint chainName) of
        (Inl error, evs) \<Rightarrow> []
      | (Inr response, evs) \<Rightarrow>
          (case json response of
             Inl error \<Rightarrow> []
           | Inr None \<Rightarrow> []
           | Inr (Some data) \<Rightarrow> filter (tokenMatches (trim (toLowerCase token))) data))"

definition chainEvents :: "network \<Rightarrow> string \<Rightarrow> event list" where
  "chainEvents net chainName = snd (fetchWithRetry net (endpoint chainName))"

text \<open>
  How the tool picks its source: the cross-chain search, or else one endpoint, that of the
  chain named or the multi-chain one.
\<close>

definition crossChain :: "query \<Rightarrow> bool" where
  "crossChain q = (\<not> truthy (q_chain q) \<and> truthy (q_token q) \<and> \<not> truthy (q_pair q))"

definition endpointOf :: "query \<Rightarrow> string" where
  "endpointOf q =
     (if truthy (q_chain q) then endpoint (orElse (q_chain q) []) else multiChainEndpoint)"

text \<open>
  A network whose errors say something: no request rejects with an \<open>Error\<close> of empty
  message, and no body fails to parse with an empty message.
\<close>

definition describesErrors :: "network \<Rightarrow> bool" where
  "describesErrors net =
     (\<forall>url n. (\<forall>nm. net url n \<noteq> Throws (Error nm [])) \<and>
              (\<forall>r. net url n = Responds r \<longrightarrow> body r \<noteq> Unparsable []))"

text \<open>
  The records that reach the grouping, and whether the grouping gets through them: it does
  unless one of them is filed under the name of a member of \<open>Object.prototype\<close>.
\<close>

definition selected :: "query \<Rightarrow> trade list \<Rightarrow> trade list" where
  "selected q fetched = limitStage (limitOf q) (sortByTime (applyFilters q fetched))"

definition groupable :: "query \<Rightarrow> trade list \<Rightarrow> bool" where
  "groupable q results =
     list_all (\<lambda>trade. chainNameOf q trade \<notin> set objectPrototypeKeys) results"

text \<open>The grouping and the success envelope of a call whose grouping gets through.\<close>

definition grouping :: "env \<Rightarrow> query \<Rightarrow> trade list \<Rightarrow> (string \<rightharpoonup> formatted list)" where
  "grouping e q results =
     (case groupByChain e q results of Inr byChain \<Rightarrow> byChain | Inl error \<Rightarrow> Map.empty)"

definition answer :: "env \<Rightarrow> query \<Rightarrow> trade list \<Rightarrow> string \<Rightarrow> string list \<Rightarrow> responseData" where
  "answer e q fetched url chainsChecked =
     respond e q fetched url chainsChecked (grouping e q (selected q fetched))"

text \<open>
  An envelope without what it read from the clock: the \<open>timestamp\<close> and the \<open>age\<close> of
  every formatted record.
\<close>

definition unaged :: "formatted \<Rightarrow> formatted" where
  "unaged f = f\<lparr>f_age := []\<rparr>"

definition clockless :: "envelope \<Rightarrow> envelope" where
  "clockless v =
     (case v of
        Success r \<Rightarrow>
          Success (r\<lparr>r_timestamp := 0,
                     r_data := map unaged (r_data r),
                     r_dataByChain := map_option (map unaged) \<circ> r_dataByChain r\<rparr>)
      | Failure f \<Rightarrow> Failure (f\<lparr>e_timestamp := 0\<rparr>))"

section \<open>Sample data\<close>

definition sampleTrade :: "string \<Rightarrow> string \<Rightarrow> string \<Rightarrow> rat \<Rightarrow> int \<Rightarrow> string \<Rightarrow> trade" where
  "sampleTrade s0 s1 side usd t c =
     \<lparr>transType = side, price = 1, blockNumber = 0, amountBase = 0, amountQuote = None,
      symbol0 = Some s0, symbol1 = Some s1, token0Price = 0, token1Price = 0, tnxvalue = usd,
      account = ''0xabc'', bottrade = False, txnDetail = ''0xdef'', time = t, pairId = ''0x1'',
      feeTier = 3000, chain = Some c\<rparr>"

definition wethUsdc :: trade where
  "wethUsdc = sampleTrade ''WETH'' ''USDC'' ''Buy'' 250000 1700000000000 ''base''"

text \<open>A trade whose chain is called \<open>constructor\<close>.\<close>

definition oddChain :: trade where
  "oddChain = wethUsdc\<lparr>chain := Some ''constructor''\<rparr>"

definition bbbAaa :: trade where
  "bbbAaa = sampleTrade ''BBB'' ''AAA'' ''Buy'' 1000 1700000000000 ''base''"

definition aaaBbbLower :: trade where
  "aaaBbbLower = sampleTrade ''aaa'' ''bbb'' ''Sell'' 1000 1700000000000 ''base''"

definition aaaCcc :: trade where
  "aaaCcc = sampleTrade ''AAA'' ''CCC'' ''Buy'' 1000 1700000000000 ''base''"

definition tradeAt :: "int \<Rightarrow> trade" where
  "tradeAt t = sampleTrade ''WETH'' ''USDC'' ''Buy'' 1000 t ''base''"

definition fiftyTrades :: "trade list" where
  "fiftyTrades = map (\<lambda>i. tradeAt (int i)) [0..<50]"

text \<open>
  A host: the network, the clock, and renderers that print the whole part of a number and
  the milliseconds of a date.
\<close>

definition hostEnv :: "network \<Rightarrow> int \<Rightarrow> env" where
  "hostEnv net nowMs =
     \<lparr>fetch = net, now = nowMs, localeNumber = (\<lambda>v. showInt (floor v)), localeDate = showInt\<rparr>"

definition anyQuery :: query where
  "anyQuery = \<lparr>q_chain = None, q_token = None, q_pair = None, q_minValue = None,
                q_limit = None, q_tradeType = None\<rparr>"

definition tokenQuery :: query where
  "tokenQuery = anyQuery\<lparr>q_token := Some ''WETH''\<rparr>"

definition okWith :: "trade list \<Rightarrow> response" where
  "okWith ts = \<lparr>status = 200, statusText = ''OK'', body = Payload ts\<rparr>"

text \<open>Networks: one that always answers with the same records, and some that fail.\<close>

definition serving :: "trade list \<Rightarrow> network" where
  "serving ts url attempt = Responds (okWith ts)"

definition http500_then_ok :: network where
  "http500_then_ok url attempt =
     (if attempt = 1
      then Responds \<lparr>status = 500, statusText = ''Internal Server Error'', body = Malformed\<rparr>
      else Responds (okWith [wethUsdc]))"

definition reset_then_ok :: network where
  "reset_then_ok url attempt =
     (if attempt = 1 then Throws (Error ''Error'' ''read ECONNRESET'')
      else Responds (okWith [wethUsdc]))"

definition base_down :: network where
  "base_down url attempt =
     (if url = endpoint ''base'' then Throws (Error ''TypeError'' ''fetch failed'')
      else Responds (okWith [wethUsdc]))"

definition base_empty :: network where
  "base_empty url attempt =
     (if url = endpoint ''base'' then Responds (okWith [])
      else Responds (okWith [wethUsdc]))"

definition unreachable :: network where
  "unreachable url attempt = Throws (Error ''TypeError'' ''fetch failed'')"

text \<open>A network on which every request rejects with an error that has no message.\<close>

definition mute :: network where
  "mute url attempt = Throws (Error ''Error'' [])"

text \<open>A network on which only the endpoint of one chain answers.\<close>

definition only_chain :: "string \<Rightarrow> trade list \<Rightarrow> network" where
  "only_chain c ts url attempt =
     (if url = endpoint c then Responds (okWith ts)
      else Throws (Error ''TypeError'' ''fetch failed''))"

section \<open>Facts about the model\<close>

subsection \<open>Strings\<close>

lemma toLowerChar_slash [simp]: "toLowerChar c = CHR ''/'' \<longleftrightarrow> c = CHR ''/''"
proof (cases "map_of (zip ''ABCDEFGHIJKLMNOPQRSTUVWXYZ'' ''abcdefghijklmnopqrstuvwxyz'') c")
  case None
  then show ?thesis by (simp add: toLowerChar_def)
next
  case (Some l)
  then have "(c, l) \<in> set (zip ''ABCDEFGHIJKLMNOPQRSTUVWXYZ'' ''abcdefghijklmnopqrstuvwxyz'')"
    by (rule map_of_SomeD)
  then have "c \<in> set ''ABCDEFGHIJKLMNOPQRSTUVWXYZ'' \<and> l \<in> set ''abcdefghijklmnopqrstuvwxyz''"
    by (metis set_zip_leftD set_zip_rightD)
  then have "c \<noteq> CHR ''/'' \<and> l \<noteq> CHR ''/''" by auto
  then show ?thesis using Some by (simp add: toLowerChar_def)
qed

lemma slash_toLowerCase [simp]: "CHR ''/'' \<in> set (toLowerCase s) \<longleftrightarrow> CHR ''/'' \<in> set s"
  unfolding toLowerCase_def set_map image_iff by (metis toLowerChar_slash)

lemma toLowerCase_append [simp]: "toLowerCase (x @ y) = toLowerCase x @ toLowerCase y"
  by (simp add: toLowerCase_def)

lemma toLowerCase_slash [simp]: "toLowerCase (CHR ''/'' # y) = CHR ''/'' # toLowerCase y"
  by (simp add: toLowerCase_def toLowerChar_def)

lemma not_isSpace_slash [simp]: "\<not> isSpace (CHR ''/'')"
  by (simp add: isSpace_def)

lemma trimStart_subset: "set (trimStart s) \<subseteq> set s"
  using set_dropWhileD [of _ isSpace s] by (auto simp: trimStart_def)

lemma trimEnd_subset: "set (trimEnd s) \<subseteq> set s"
  using set_dropWhileD [of _ isSpace "rev s"] by (auto simp: trimEnd_def)

lemma set_trim: "set (trim s) \<subseteq> set s"
proof -
  have "set (trimEnd t) \<subseteq> set t" for t
    using set_dropWhileD [of _ isSpace "rev t"] by (auto simp: trimEnd_def)
  moreover have "set (trimStart s) \<subseteq> set s"
    using set_dropWhileD [of _ isSpace s] by (auto simp: trimStart_def)
  ultimately show ?thesis unfolding trim_def by blast
qed

lemma trim_around_slash:
  "trim (x @ CHR ''/'' # y) = trimStart x @ CHR ''/'' # trimEnd y"
proof -
  have a: "trimStart (x @ CHR ''/'' # y) = trimStart x @ CHR ''/'' # y"
    by (simp add: trimStart_def dropWhile_append)
  have b: "trimEnd (u @ CHR ''/'' # y) = u @ CHR ''/'' # trimEnd y" for u
    by (simp add: trimEnd_def dropWhile_append)
  show ?thesis by (simp add: trim_def a b)
qed

lemma split_without: "sep \<notin> set s \<Longrightarrow> split sep s = [s]"
  by (induction s) auto

lemma split_once: "sep \<notin> set x \<Longrightarrow> sep \<notin> set y \<Longrightarrow> split sep (x @ sep # y) = [x, y]"
  by (induction x) (auto simp: split_without)

subsection \<open>The pair filter\<close>

lemma pairMatch_None [simp]: "\<not> pairMatch a None trade"
  by (simp add: pairMatch_def Let_def)

lemma pairMatch_Some:
  "pairMatch (Some a) (Some b) =
     (\<lambda>trade. (lowerOrEmpty (symbol0 trade) = a \<and> lowerOrEmpty (symbol1 trade) = b) \<or>
               (lowerOrEmpty (symbol0 trade) = b \<and> lowerOrEmpty (symbol1 trade) = a))"
  by (rule ext) (simp add: pairMatch_def Let_def)

lemma pairFilter_no_slash: "CHR ''/'' \<notin> set pair \<Longrightarrow> pairFilter pair results = []"
proof -
  assume h: "CHR ''/'' \<notin> set pair"
  have "CHR ''/'' \<notin> set (trim (toLowerCase pair))"
    using h set_trim [of "toLowerCase pair"] by auto
  then have "split (CHR ''/'') (trim (toLowerCase pair)) = [trim (toLowerCase pair)]"
    by (rule split_without)
  then show ?thesis by (simp add: pairFilter_def Let_def)
qed

lemma pairFilter_slash:
  assumes "CHR ''/'' \<notin> set x" and "CHR ''/'' \<notin> set y"
  shows "pairFilter (x @ CHR ''/'' # y) results =
         filter (pairMatch (Some (trimStart (toLowerCase x))) (Some (trimEnd (toLowerCase y))))
           results"
proof -
  have "CHR ''/'' \<notin> set (trimStart (toLowerCase x))"
    using assms(1) trimStart_subset [of "toLowerCase x"] by auto
  moreover have "CHR ''/'' \<notin> set (trimEnd (toLowerCase y))"
    using assms(2) trimEnd_subset [of "toLowerCase y"] by auto
  ultimately have "split (CHR ''/'') (trim (toLowerCase (x @ CHR ''/'' # y))) =
      [trimStart (toLowerCase x), trimEnd (toLowerCase y)]"
    by (simp add: trim_around_slash split_once)
  then show ?thesis by (simp add: pairFilter_def Let_def)
qed

subsection \<open>The retry loop, one step at a time\<close>

lemma retry_over:
  "\<not> attempt \<le> maxRetries \<Longrightarrow>
   fetchWithRetry_from net url maxRetries attempt delay =
     (Inl (Error ''Error'' ''Unexpected error in fetchWithRetry''), [])"
  by (subst fetchWithRetry_from.simps) simp

lemma retry_ok:
  "attempt \<le> maxRetries \<Longrightarrow> attempt_once net url attempt = Inr r \<Longrightarrow>
   fetchWithRetry_from net url maxRetries attempt delay = (Inr r, [Request url])"
  by (subst fetchWithRetry_from.simps) simp

lemma retry_last:
  "attempt_once net url maxRetries = Inl error \<Longrightarrow>
   fetchWithRetry_from net url maxRetries maxRetries delay =
     (Inl (Error ''Error''
         (''Failed after '' @ showNat maxRetries @ '' attempts. Last error: '' @
          errorMessage error ''Unknown error'')),
      [Request url])"
  by (subst fetchWithRetry_from.simps) simp

lemma retry_again:
  "attempt < maxRetries \<Longrightarrow> attempt_once net url attempt = Inl error \<Longrightarrow>
   isConnectionError error \<Longrightarrow>
   fetchWithRetry_from net url maxRetries attempt delay =
     (fst (fetchWithRetry_from net url maxRetries (attempt + 1) (delay * 2)),
      Request url # Sleep delay # snd (fetchWithRetry_from net url maxRetries (attempt + 1) (delay * 2)))"
  by (subst fetchWithRetry_from.simps) (simp split: prod.splits)

lemma retry_rethrow:
  "attempt < maxRetries \<Longrightarrow> attempt_once net url attempt = Inl error \<Longrightarrow>
   \<not> isConnectionError error \<Longrightarrow>
   fetchWithRetry_from net url maxRetries attempt delay = (Inl error, [Request url])"
  by (subst fetchWithRetry_from.simps) simp

lemma retry_cases:
  obtains (over) "\<not> attempt \<le> maxRetries"
  | (ok) r where "attempt \<le> maxRetries" "attempt_once net url attempt = Inr r"
  | (last) error where "attempt = maxRetries" "attempt_once net url attempt = Inl error"
  | (again) error where "attempt < maxRetries" "attempt_once net url attempt = Inl error"
      "isConnectionError error"
  | (rethrow) error where "attempt < maxRetries" "attempt_once net url attempt = Inl error"
      "\<not> isConnectionError error"
  by (cases "attempt_once net url attempt") (metis not_le_imp_less order.strict_iff_order)+

lemma attempt_once_message:
  assumes "describesErrors net" and "attempt_once net url n = Inl err"
  shows "errorMessage err fallback \<noteq> [] \<or> (err = NonError)"
proof (cases "net url n")
  case (Throws x)
  then have "err = x" using assms(2) by (simp add: attempt_once_def)
  moreover have "\<forall>nm. x \<noteq> Error nm []"
    using assms(1) Throws unfolding describesErrors_def by (metis fetched.inject(2))
  ultimately show ?thesis by (cases err) (auto simp: errorMessage_def)
next
  case (Responds r)
  then show ?thesis using assms(2)
    by (auto simp: attempt_once_def errorMessage_def split: if_splits)
qed

lemma fetchWithRetry_from_message:
  "describesErrors net \<Longrightarrow>
   fst (fetchWithRetry_from net url maxRetries attempt delay) = Inl err \<Longrightarrow>
   fallback \<noteq> [] \<Longrightarrow> errorMessage err fallback \<noteq> []"
proof (induction net url maxRetries attempt delay rule: fetchWithRetry_from.induct)
  case (1 net url maxRetries attempt delay)
  show ?case
  proof (cases rule: retry_cases [where attempt = attempt and maxRetries = maxRetries and net = net and url = url])
    case over
    then show ?thesis using "1.prems" by (auto simp: retry_over errorMessage_def)
  next
    case (ok r)
    then show ?thesis using "1.prems" by (simp add: retry_ok)
  next
    case (last error)
    then show ?thesis using "1.prems" by (auto simp: retry_last errorMessage_def)
  next
    case (again error)
    then have "fst (fetchWithRetry_from net url maxRetries (attempt + 1) (delay * 2)) = Inl err"
      using "1.prems"(2) by (simp add: retry_again)
    then show ?thesis using "1.IH" [of error] again "1.prems"(1,3) by simp
  next
    case (rethrow error)
    then have "err = error" using "1.prems"(2) by (simp add: retry_rethrow)
    then show ?thesis
      using attempt_once_message [OF "1.prems"(1) rethrow(2), of fallback] "1.prems"(3)
      by (auto simp: errorMessage_def)
  qed
qed

lemma fetchWithRetry_from_response:
  "fst (fetchWithRetry_from net url maxRetries attempt delay) = Inr r \<Longrightarrow>
   \<exists>n. net url n = Responds r"
proof (induction net url maxRetries attempt delay rule: fetchWithRetry_from.induct)
  case (1 net url maxRetries attempt delay)
  show ?case
  proof (cases rule: retry_cases [where attempt = attempt and maxRetries = maxRetries and net = net and url = url])
    case over
    then show ?thesis using "1.prems" by (simp add: retry_over)
  next
    case (ok r')
    then have "attempt_once net url attempt = Inr r" using "1.prems" by (simp add: retry_ok)
    then have "net url attempt = Responds r"
      by (auto simp: attempt_once_def split: fetched.splits if_splits)
    then show ?thesis by blast
  next
    case (last error)
    then show ?thesis using "1.prems" by (simp add: retry_last)
  next
    case (again error)
    then have "fst (fetchWithRetry_from net url maxRetries (attempt + 1) (delay * 2)) = Inr r"
      using "1.prems" by (simp add: retry_again)
    then show ?thesis using "1.IH" [of error] again by simp
  next
    case (rethrow error)
    then show ?thesis using "1.prems" by (simp add: retry_rethrow)
  qed
qed

lemma fetchWithRetry_from_cong:
  "net url = net' url \<Longrightarrow>
   fetchWithRetry_from net url maxRetries attempt delay =
   fetchWithRetry_from net' url maxRetries attempt delay"
proof (induction net url maxRetries attempt delay rule: fetchWithRetry_from.induct)
  case (1 net url maxRetries attempt delay)
  have a: "attempt_once net' url n = attempt_once net url n" for n
    using "1.prems" by (simp add: attempt_once_def)
  show ?case
  proof (cases rule: retry_cases [where attempt = attempt and maxRetries = maxRetries and net = net and url = url])
    case over
    then show ?thesis by (simp add: retry_over)
  next
    case (ok r)
    then show ?thesis using a by (simp add: retry_ok)
  next
    case (last error)
    then show ?thesis using a by (simp add: retry_last)
  next
    case (again error)
    then show ?thesis using "1.IH" [of error] "1.prems" a by (simp add: retry_again)
  next
    case (rethrow error)
    then show ?thesis using a by (simp add: retry_rethrow)
  qed
qed

lemma fetchWithRetry_from_events:
  "set (snd (fetchWithRetry_from net url maxRetries attempt delay))
     \<subseteq> insert (Request url) (range Sleep)"
proof (induction net url maxRetries attempt delay rule: fetchWithRetry_from.induct)
  case (1 net url maxRetries attempt delay)
  show ?case
  proof (cases rule: retry_cases [where attempt = attempt and maxRetries = maxRetries and net = net and url = url])
    case over
    then show ?thesis by (simp add: retry_over)
  next
    case (ok r)
    then show ?thesis by (simp add: retry_ok)
  next
    case (last error)
    then show ?thesis by (simp add: retry_last)
  next
    case (again error)
    then show ?thesis using "1.IH" [of error] by (simp add: retry_again)
  next
    case (rethrow error)
    then show ?thesis by (simp add: retry_rethrow)
  qed
qed

lemma request_made: "Request url \<in> set (snd (fetchWithRetry net url))"
  by (simp add: fetchWithRetry_def fetchWithRetry_from.simps [of net url 3]
        split: sum.splits prod.splits)

lemma fetch_ok:
  "net url 1 = Responds (okWith ts) \<Longrightarrow> fetchWithRetry net url = (Inr (okWith ts), [Request url])"
  by (simp add: fetchWithRetry_def fetchWithRetry_from.simps attempt_once_def ok_def okWith_def)

lemma fetch_down:
  "(\<And>n. net url n = Throws (Error ''TypeError'' ''fetch failed'')) \<Longrightarrow>
   fetchWithRetry net url =
     (Inl (Error ''Error'' ''Failed after 3 attempts. Last error: fetch failed''),
      [Request url, Sleep 1000, Request url, Sleep 2000, Request url])"
  by (simp add: fetchWithRetry_def fetchWithRetry_from.simps showNat.simps attempt_once_def
        isConnectionError_def errorMessage_def)

subsection \<open>Fetching one endpoint\<close>

lemma fetchData_ok:
  "net url 1 = Responds (okWith ts) \<Longrightarrow> fetchData net url = (Inr ts, [Request url])"
  by (simp add: fetchData_def fetch_ok json_def) (simp add: okWith_def)

lemma fetchData_events: "snd (fetchData net url) = snd (fetchWithRetry net url)"
  by (simp add: fetchData_def split: prod.splits sum.splits option.splits)

lemma fetchData_cong: "net' url = net url \<Longrightarrow> fetchData net' url = fetchData net url"
  using fetchWithRetry_from_cong [of net' url net 3 1 1000]
  by (simp add: fetchData_def fetchWithRetry_def)

lemma fetchData_message:
  assumes "describesErrors net" and "fst (fetchData net url) = Inl err"
  shows "errorMessage err ''Unknown error occurred'' \<noteq> []"
proof (cases "fetchWithRetry net url")
  case (Pair res evs)
  show ?thesis
  proof (cases res)
    case (Inl x)
    then have "err = x" using assms(2) Pair by (simp add: fetchData_def)
    then show ?thesis
      using fetchWithRetry_from_message [OF assms(1), of url 3 1 1000 err "''Unknown error occurred''"]
        Pair Inl by (simp add: fetchWithRetry_def)
  next
    case (Inr r)
    then obtain n where n: "net url n = Responds r"
      using fetchWithRetry_from_response [of net url 3 1 1000 r] Pair by (auto simp: fetchWithRetry_def)
    then have "body r \<noteq> Unparsable []"
      using assms(1) unfolding describesErrors_def by blast
    then show ?thesis using assms(2) Pair Inr
      by (auto simp: fetchData_def json_def errorMessage_def split: payload.splits)
  qed
qed

subsection \<open>The cross-chain search\<close>

lemma endpoint_eq [simp]: "endpoint c = endpoint c' \<longleftrightarrow> c = c'"
  by (simp add: endpoint_def)

lemma searchChains_eq:
  "searchChains net token cs allResults chainsChecked evs =
     ((allResults @ concat (map (chainHits net token) cs), chainsChecked @ cs),
      evs @ concat (map (chainEvents net) cs))"
proof (induction cs arbitrary: allResults chainsChecked evs)
  case Nil
  then show ?case by simp
next
  case (Cons c cs)
  show ?case
  proof (cases "fetchWithRetry net (endpoint c)")
    case (Pair res ev)
    then show ?thesis
      by (cases res; cases "json (projr res)")
         (auto simp: Cons.IH chainHits_def chainEvents_def Let_def split: sum.splits option.splits)
  qed
qed

lemma searchTokenAcrossChains_eq:
  "searchTokenAcrossChains net token limit =
     ((concat (map (chainHits net token) supportedChains), supportedChains),
      concat (map (chainEvents net) supportedChains))"
  by (simp add: searchTokenAcrossChains_def searchChains_eq)

lemma chainHits_failed:
  "fst (fetchWithRetry net (endpoint c)) = Inl err \<Longrightarrow> chainHits net token c = []"
  by (cases "fetchWithRetry net (endpoint c)") (simp add: chainHits_def)

lemma chainHits_ok:
  "net (endpoint c) 1 = Responds (okWith ts) \<Longrightarrow>
   chainHits net token c = filter (tokenMatches (trim (toLowerCase token))) ts"
  by (simp add: chainHits_def fetch_ok json_def) (simp add: okWith_def)

lemma chainEvents_request: "Request (endpoint c) \<in> set (chainEvents net c)"
  by (simp add: chainEvents_def request_made)

subsection \<open>The filter stages, the order and the limit\<close>

lemma stages_empty:
  "tradeTypeStage q [] = []" "minValueStage q [] = []"
  by (simp_all add: tradeTypeStage_def minValueStage_def split: option.splits)

lemma limitStage_eq:
  "limitStage limit results = (if 0 < limit then take (nat limit) results else results)"
  by (simp add: limitStage_def)

lemma sortByTime_mset: "mset (sortByTime results) = mset results"
  by (simp add: sortByTime_def)

lemma sortByTime_sorted: "sorted_wrt (\<lambda>a b. time b \<le> time a) (sortByTime results)"
proof -
  have "sorted (map (\<lambda>trade. - time trade) (sortByTime results))"
    unfolding sortByTime_def by (rule sorted_sort_key)
  then show ?thesis by (simp add: sorted_map)
qed

lemma sortByTime_stable:
  "filter (\<lambda>trade. time trade = k) (sortByTime results) = filter (\<lambda>trade. time trade = k) results"
  using sort_key_stable [of "\<lambda>trade. - time trade" "- k" results]
  by (simp add: sortByTime_def)

lemma sortByTime_split:
  "x \<in> set (take n (sortByTime results)) \<Longrightarrow> y \<in> set (drop n (sortByTime results)) \<Longrightarrow>
   time y \<le> time x"
proof -
  assume x: "x \<in> set (take n (sortByTime results))" and y: "y \<in> set (drop n (sortByTime results))"
  have "sorted_wrt (\<lambda>a b. time b \<le> time a)
          (take n (sortByTime results) @ drop n (sortByTime results))"
    using sortByTime_sorted [of results] by simp
  then show ?thesis using x y unfolding sorted_wrt_append by blast
qed

subsection \<open>The grouping\<close>

lemma selected_subset: "set (selected q fetched) \<subseteq> set fetched"
proof -
  have a: "set (limitStage l xs) \<subseteq> set xs" for l xs
    by (auto simp: limitStage_def dest: in_set_takeD)
  have b: "set (sortByTime xs) = set xs" for xs by (simp add: sortByTime_def)
  have c: "set (applyFilters q xs) \<subseteq> set xs" for xs
    by (auto simp: applyFilters_def minValueStage_def tradeTypeStage_def pairStage_def
          pairFilter_def tokenStage_def tokenFilter_def Let_def split: option.splits if_splits)
  show ?thesis unfolding selected_def using a b c by blast
qed

lemma pushByChain_inherited:
  "dom acc \<inter> set objectPrototypeKeys = {} \<Longrightarrow> k \<in> set objectPrototypeKeys \<Longrightarrow>
   pushByChain k v acc = Inl pushError"
  by (cases "acc k") (auto simp: pushByChain_def)

lemma pushByChain_plain:
  "k \<notin> set objectPrototypeKeys \<Longrightarrow>
   \<exists>acc'. pushByChain k v acc = Inr acc' \<and> dom acc' = insert k (dom acc)"
  by (cases "acc k") (auto simp: pushByChain_def)

lemma groupFrom_ok:
  "dom acc \<inter> set objectPrototypeKeys = {} \<Longrightarrow> groupable q results \<Longrightarrow>
   \<exists>m. groupFrom e q results acc = Inr m"
proof (induction results arbitrary: acc)
  case Nil
  then show ?case by simp
next
  case (Cons trade rest)
  from Cons.prems(2) have k: "chainNameOf q trade \<notin> set objectPrototypeKeys"
    and r: "groupable q rest" by (simp_all add: groupable_def)
  from pushByChain_plain [OF k, of "formatTradeData e trade" acc]
  obtain acc' where a: "pushByChain (chainNameOf q trade) (formatTradeData e trade) acc = Inr acc'"
    and d: "dom acc' = insert (chainNameOf q trade) (dom acc)" by blast
  have "dom acc' \<inter> set objectPrototypeKeys = {}" using d k Cons.prems(1) by auto
  from Cons.IH [OF this r] show ?case by (simp add: a)
qed

lemma groupFrom_throws:
  "dom acc \<inter> set objectPrototypeKeys = {} \<Longrightarrow> \<not> groupable q results \<Longrightarrow>
   groupFrom e q results acc = Inl pushError"
proof (induction results arbitrary: acc)
  case Nil
  then show ?case by (simp add: groupable_def)
next
  case (Cons trade rest)
  show ?case
  proof (cases "chainNameOf q trade \<in> set objectPrototypeKeys")
    case True
    then show ?thesis by (simp add: pushByChain_inherited [OF Cons.prems(1)])
  next
    case False
    then have r: "\<not> groupable q rest" using Cons.prems(2) by (simp add: groupable_def)
    from pushByChain_plain [OF False, of "formatTradeData e trade" acc]
    obtain acc' where a: "pushByChain (chainNameOf q trade) (formatTradeData e trade) acc = Inr acc'"
      and d: "dom acc' = insert (chainNameOf q trade) (dom acc)" by blast
    have "dom acc' \<inter> set objectPrototypeKeys = {}" using d False Cons.prems(1) by auto
    from Cons.IH [OF this r] show ?thesis by (simp add: a)
  qed
qed

lemma groupByChain_ok:
  "groupable q results \<Longrightarrow> groupByChain e q results = Inr (grouping e q results)"
  using groupFrom_ok [of Map.empty q results e]
  by (auto simp: groupByChain_def grouping_def)

lemma groupByChain_throws:
  "\<not> groupable q results \<Longrightarrow> groupByChain e q results = Inl pushError"
  using groupFrom_throws [of Map.empty q results e] by (simp add: groupByChain_def)

lemma finish_ok:
  "groupable q (selected q fetched) \<Longrightarrow>
   finish e q fetched url cc = Inr (answer e q fetched url cc)"
  by (simp add: finish_def answer_def selected_def [symmetric] groupByChain_ok)

lemma finish_throws:
  "\<not> groupable q (selected q fetched) \<Longrightarrow> finish e q fetched url cc = Inl pushError"
  by (simp add: finish_def selected_def [symmetric] groupByChain_throws)

subsection \<open>The envelope\<close>

lemma raw_formatTradeData [simp]: "f_raw (formatTradeData e trade) = trade"
  by (simp add: formatTradeData_def)

lemma raw_format_all: "map f_raw (map (formatTradeData e) results) = results"
  by (induction results) simp_all

lemma respond_data [simp]:
  "map f_raw (r_data (answer e q fetched url cc)) =
     limitStage (limitOf q) (sortByTime (applyFilters q fetched))"
  by (simp add: answer_def respond_def Let_def raw_format_all del: map_map)

lemma respond_fields [simp]:
  "r_success (answer e q fetched url cc)"
  "r_count (answer e q fetched url cc) =
     length (limitStage (limitOf q) (sortByTime (applyFilters q fetched)))"
  "r_availableSymbols (answer e q fetched url cc) = take 20 (getUniqueSymbols fetched)"
  "r_chainsChecked (answer e q fetched url cc) = cc"
  "r_timestamp (answer e q fetched url cc) = now e"
  by (simp_all add: answer_def respond_def Let_def)

lemma respond_ages:
  "map f_age (r_data (answer e q fetched url cc)) =
     map (\<lambda>trade. getTimeAgo (now e) (time trade))
       (limitStage (limitOf q) (sortByTime (applyFilters q fetched)))"
  by (simp add: answer_def respond_def Let_def formatTradeData_def comp_def)

lemma respond_empty:
  "applyFilters q fetched = [] \<Longrightarrow>
   r_data (answer e q fetched url cc) = [] \<and> r_count (answer e q fetched url cc) = 0"
  by (simp add: answer_def respond_def Let_def limitStage_def sortByTime_def)

lemma respond_message_none:
  "applyFilters q fetched = [] \<Longrightarrow>
   r_message (answer e q fetched url cc) =
     ''No trades found matching your criteria. Available symbols: '' @
     join '', '' (take 10 (getUniqueSymbols fetched))"
  by (simp add: answer_def respond_def Let_def limitStage_def sortByTime_def)

lemma failed_fields [simp]:
  "\<not> e_success (failed e q error)"
  "e_suggestion (failed e q error) \<noteq> []"
  "e_error (failed e q error) = errorMessage error ''Unknown error occurred''"
  by (simp_all add: failed_def)

lemma pushError_message: "errorMessage pushError fallback = ''acc[chainName].push is not a function''"
  by (simp add: pushError_def errorMessage_def)

lemma failed_pushError: "e_error (failed e q pushError) = ''acc[chainName].push is not a function''"
  by (simp add: pushError_message)

lemma formatTradeData_fetch: "formatTradeData (e\<lparr>fetch := net\<rparr>) = formatTradeData e"
  by (rule ext) (simp add: formatTradeData_def)

lemma groupFrom_fetch: "groupFrom (e\<lparr>fetch := net\<rparr>) q results acc = groupFrom e q results acc"
  by (induction results arbitrary: acc) (simp_all add: formatTradeData_fetch split: sum.splits)

lemma respond_fetch:
  "respond (e\<lparr>fetch := net\<rparr>) q fetched url cc byChain = respond e q fetched url cc byChain"
  by (simp add: respond_def formatTradeData_fetch)

lemma finish_fetch: "finish (e\<lparr>fetch := net\<rparr>) q fetched url cc = finish e q fetched url cc"
  by (simp add: finish_def groupByChain_def groupFrom_fetch respond_fetch split: sum.splits)

lemma failed_fetch: "failed (e\<lparr>fetch := net\<rparr>) q err = failed e q err"
  by (simp add: failed_def)

subsection \<open>The three ways of a call\<close>

lemma execute_fst:
  "fst (execute e q) =
     (case fst (selectSource (fetch e) q) of
        Inl error \<Rightarrow> Failure (failed e q error)
      | Inr (fetched, url, chainsChecked) \<Rightarrow>
          if groupable q (selected q fetched)
          then Success (answer e q fetched url chainsChecked)
          else Failure (failed e q pushError))"
  by (simp add: execute_def tryBlock_def finish_ok finish_throws split: prod.splits sum.splits)

lemma execute_snd: "snd (execute e q) = snd (selectSource (fetch e) q)"
  by (simp add: execute_def tryBlock_def split: prod.splits sum.splits)

lemma execute_Success_respond:
  "fst (execute e q) = Success r \<Longrightarrow>
   \<exists>fetched url cc. fst (selectSource (fetch e) q) = Inr (fetched, url, cc) \<and>
                     groupable q (selected q fetched) \<and> r = answer e q fetched url cc"
  by (auto simp: execute_fst split: sum.splits prod.splits if_splits)

lemma execute_selected:
  "fst (selectSource (fetch e) q) = Inr (fetched, url, cc) \<Longrightarrow>
   groupable q (selected q fetched) \<Longrightarrow>
   fst (execute e q) = Success (answer e q fetched url cc)"
  by (simp add: execute_fst)

lemma execute_selected_throws:
  "fst (selectSource (fetch e) q) = Inr (fetched, url, cc) \<Longrightarrow>
   \<not> groupable q (selected q fetched) \<Longrightarrow>
   fst (execute e q) = Failure (failed e q pushError)"
  by (simp add: execute_fst)

lemma selectSource_cross:
  "\<not> truthy (q_chain q) \<Longrightarrow> truthy (q_token q) \<Longrightarrow> \<not> truthy (q_pair q) \<Longrightarrow>
   selectSource net q =
     (Inr (concat (map (chainHits net (orElse (q_token q) [])) supportedChains),
           ''multi-chain-search'', supportedChains),
      concat (map (chainEvents net) supportedChains))"
  by (simp add: selectSource_def searchTokenAcrossChains_eq)

lemma selectSource_chain:
  "truthy (q_chain q) \<Longrightarrow>
   selectSource net q =
     (case fetchData net (endpoint (orElse (q_chain q) [])) of
        (Inl error, evs) \<Rightarrow> (Inl error, evs)
      | (Inr data, evs) \<Rightarrow>
          (Inr (data, endpoint (orElse (q_chain q) []), [orElse (q_chain q) []]), evs))"
  by (simp add: selectSource_def Let_def)

lemma selectSource_multi:
  "\<not> truthy (q_chain q) \<Longrightarrow> \<not> (truthy (q_token q) \<and> \<not> truthy (q_pair q)) \<Longrightarrow>
   selectSource net q =
     (case fetchData net multiChainEndpoint of
        (Inl error, evs) \<Rightarrow> (Inl error, evs)
      | (Inr data, evs) \<Rightarrow> (Inr (data, multiChainEndpoint, [''multi-chain'']), evs))"
  by (auto simp: selectSource_def)

lemma selectSource_single:
  assumes "\<not> crossChain q"
  shows "fst (selectSource net q) =
     (case fst (fetchData net (endpointOf q)) of
        Inl error \<Rightarrow> Inl error
      | Inr data \<Rightarrow>
          Inr (data, endpointOf q,
               [if truthy (q_chain q) then orElse (q_chain q) [] else ''multi-chain'']))"
proof (cases "truthy (q_chain q)")
  case True
  then show ?thesis
    by (simp add: selectSource_chain endpointOf_def split: prod.splits sum.splits)
next
  case False
  then have "\<not> (truthy (q_token q) \<and> \<not> truthy (q_pair q))"
    using assms by (simp add: crossChain_def)
  then show ?thesis using False
    by (simp add: selectSource_multi endpointOf_def split: prod.splits sum.splits)
qed

lemma selectSource_chain_events:
  "truthy (q_chain q) \<Longrightarrow>
   snd (selectSource net q) = snd (fetchWithRetry net (endpoint (orElse (q_chain q) [])))"
  by (simp add: selectSource_chain fetchData_events [symmetric] split: prod.splits sum.splits)

lemma selectSource_cross_fst:
  assumes "crossChain q"
  shows "fst (selectSource net q) =
     Inr (concat (map (chainHits net (orElse (q_token q) [])) supportedChains),
          ''multi-chain-search'', supportedChains)"
proof -
  from assms have a: "\<not> truthy (q_chain q)" "truthy (q_token q)" "\<not> truthy (q_pair q)"
    by (simp_all add: crossChain_def)
  show ?thesis by (simp add: selectSource_cross [OF a])
qed

lemma execute_cross:
  assumes "crossChain q"
    and "groupable q (selected q
           (concat (map (chainHits (fetch e) (orElse (q_token q) [])) supportedChains)))"
  shows "fst (execute e q) =
     Success (answer e q (concat (map (chainHits (fetch e) (orElse (q_token q) [])) supportedChains))
                ''multi-chain-search'' supportedChains)"
  using execute_selected [OF selectSource_cross_fst [OF assms(1)] assms(2)] .

lemma execute_single_failure:
  assumes "\<not> crossChain q" and "fst (fetchData (fetch e) (endpointOf q)) = Inl err"
  shows "fst (execute e q) = Failure (failed e q err)"
  by (simp add: execute_fst selectSource_single [OF assms(1)] assms(2))

lemma selectSource_Inl:
  "fst (selectSource net q) = Inl err \<longleftrightarrow>
   \<not> crossChain q \<and> fst (fetchData net (endpointOf q)) = Inl err"
proof (cases "crossChain q")
  case True
  then show ?thesis by (simp add: selectSource_cross_fst)
next
  case False
  then show ?thesis
    by (cases "fst (fetchData net (endpointOf q))") (simp_all add: selectSource_single)
qed

lemma selectSource_single_ok:
  assumes "\<not> crossChain q" and "fst (fetchData net (endpointOf q)) = Inr data"
  shows "fst (selectSource net q) =
     Inr (data, endpointOf q,
          [if truthy (q_chain q) then orElse (q_chain q) [] else ''multi-chain''])"
  by (simp add: selectSource_single [OF assms(1)] assms(2))

lemma execute_single_success:
  assumes "\<not> crossChain q" and "fst (fetchData (fetch e) (endpointOf q)) = Inr data"
    and "groupable q (selected q data)"
  shows "fst (execute e q) =
     Success (answer e q data (endpointOf q)
                [if truthy (q_chain q) then orElse (q_chain q) [] else ''multi-chain''])"
  using execute_selected [OF selectSource_single_ok [OF assms(1,2)] assms(3)] .

lemma execute_same_selection:
  "fst (selectSource net q) = fst (selectSource (fetch e) q) \<Longrightarrow>
   fst (execute (e\<lparr>fetch := net\<rparr>) q) = fst (execute e q)"
  by (auto simp: execute_def tryBlock_def finish_fetch failed_fetch
        split: sum.splits prod.splits)

lemma execute_fetch_cong:
  "selectSource net q = selectSource (fetch e) q \<Longrightarrow> execute (e\<lparr>fetch := net\<rparr>) q = execute e q"
  by (simp add: execute_def tryBlock_def finish_fetch failed_fetch split: prod.splits sum.splits)

subsection \<open>The clock\<close>

lemma unaged_format_now:
  "unaged (formatTradeData (e\<lparr>now := t\<rparr>) trade) = unaged (formatTradeData e trade)"
  by (simp add: unaged_def formatTradeData_def)

lemma pushByChain_now:
  assumes "map_option (map unaged) \<circ> acc' = map_option (map unaged) \<circ> acc"
    and "unaged v' = unaged v"
  shows "map_sum id ((\<circ>) (map_option (map unaged))) (pushByChain k v' acc') =
         map_sum id ((\<circ>) (map_option (map unaged))) (pushByChain k v acc)"
proof -
  have at: "map_option (map unaged) (acc' x) = map_option (map unaged) (acc x)" for x
    using fun_cong [OF assms(1), of x] by simp
  show ?thesis
  proof (cases "acc k")
    case None
    then have "acc' k = None" using at [of k] by simp
    then show ?thesis using None assms(2) at
      by (auto simp: pushByChain_def fun_eq_iff)
  next
    case (Some vs)
    then obtain vs' where s: "acc' k = Some vs'" and m: "map unaged vs' = map unaged vs"
      using at [of k] by (cases "acc' k") auto
    then show ?thesis using Some assms(2) at
      by (auto simp: pushByChain_def fun_eq_iff)
  qed
qed

lemma groupFrom_now:
  "map_option (map unaged) \<circ> acc' = map_option (map unaged) \<circ> acc \<Longrightarrow>
   map_sum id ((\<circ>) (map_option (map unaged))) (groupFrom (e\<lparr>now := t\<rparr>) q results acc') =
   map_sum id ((\<circ>) (map_option (map unaged))) (groupFrom e q results acc)"
proof (induction results arbitrary: acc acc')
  case Nil
  then show ?case by simp
next
  case (Cons trade rest)
  let ?k = "chainNameOf q trade"
  have p: "map_sum id ((\<circ>) (map_option (map unaged)))
             (pushByChain ?k (formatTradeData (e\<lparr>now := t\<rparr>) trade) acc') =
           map_sum id ((\<circ>) (map_option (map unaged)))
             (pushByChain ?k (formatTradeData e trade) acc)"
    using pushByChain_now [OF Cons.prems unaged_format_now] .
  show ?case
  proof (cases "pushByChain ?k (formatTradeData e trade) acc")
    case (Inl err)
    then obtain err' where "pushByChain ?k (formatTradeData (e\<lparr>now := t\<rparr>) trade) acc' = Inl err'"
      and "err' = err"
      using p by (cases "pushByChain ?k (formatTradeData (e\<lparr>now := t\<rparr>) trade) acc'") auto
    then show ?thesis using Inl by simp
  next
    case (Inr m)
    then obtain m' where a: "pushByChain ?k (formatTradeData (e\<lparr>now := t\<rparr>) trade) acc' = Inr m'"
      and b: "map_option (map unaged) \<circ> m' = map_option (map unaged) \<circ> m"
      using p by (cases "pushByChain ?k (formatTradeData (e\<lparr>now := t\<rparr>) trade) acc'") auto
    show ?thesis using Cons.IH [OF b] by (simp add: a Inr)
  qed
qed

lemma grouping_now:
  "map_option (map unaged) \<circ> grouping (e\<lparr>now := t\<rparr>) q results =
   map_option (map unaged) \<circ> grouping e q results"
  using groupFrom_now [where acc = Map.empty and acc' = Map.empty and e = e and t = t and q = q
      and results = results]
  by (cases "groupFrom e q results Map.empty"; cases "groupFrom (e\<lparr>now := t\<rparr>) q results Map.empty")
     (auto simp: grouping_def groupByChain_def)

lemma clockless_respond_now:
  "clockless (Success (answer (e\<lparr>now := t\<rparr>) q fetched url cc)) =
   clockless (Success (answer e q fetched url cc))"
proof -
  have d: "map unaged (map (formatTradeData (e\<lparr>now := t\<rparr>)) results) =
      map unaged (map (formatTradeData e) results)" for results
    by (induction results) (simp_all add: unaged_format_now)
  show ?thesis
    by (simp add: clockless_def answer_def respond_def Let_def d grouping_now del: map_map)
qed

lemma clockless_failed_now:
  "clockless (Failure (failed (e\<lparr>now := t\<rparr>) q err)) = clockless (Failure (failed e q err))"
  by (simp add: clockless_def failed_def)

subsection \<open>The samples\<close>

lemma lower_samples:
  "toLowerCase ''AAA'' = ''aaa''" "toLowerCase ''BBB'' = ''bbb''" "toLowerCase ''CCC'' = ''ccc''"
  "toLowerCase ''aaa'' = ''aaa''" "toLowerCase ''bbb'' = ''bbb''"
  by (simp_all add: toLowerCase_def toLowerChar_def)

lemma time_tradeAt [simp]: "time (tradeAt t) = t"
  by (simp add: tradeAt_def sampleTrade_def)

lemma wethUsdc_no_pepe: "\<not> tokenMatches (trim (toLowerCase ''PEPE'')) wethUsdc"
  by (simp add: tokenMatches_def wethUsdc_def sampleTrade_def lowerOrEmpty_def toLowerCase_def
        toLowerChar_def trim_def trimStart_def trimEnd_def isSpace_def)

lemma wethUsdc_pair: "pairFilter ''WETH/USDC'' [wethUsdc] = [wethUsdc]"
  by (simp add: pairFilter_def pairMatch_def wethUsdc_def sampleTrade_def lowerOrEmpty_def toLowerCase_def
        toLowerChar_def trim_def trimStart_def trimEnd_def isSpace_def)

lemma symbols_none: "getUniqueSymbols [] = []"
  by (simp add: getUniqueSymbols_def)

lemma symbols_wethUsdc: "getUniqueSymbols [wethUsdc] = [''USDC'', ''WETH'']"
  by (simp add: getUniqueSymbols_def addSymbol_def wethUsdc_def sampleTrade_def)

lemma crossChain_tokenQuery: "crossChain tokenQuery"
  by (simp add: crossChain_def tokenQuery_def anyQuery_def)

lemma anyQuery_single: "\<not> crossChain anyQuery"
  by (simp add: crossChain_def anyQuery_def)

lemma anyQuery_endpoint: "endpointOf anyQuery = multiChainEndpoint"
  by (simp add: endpointOf_def anyQuery_def)

lemma anyQuery_filters: "applyFilters anyQuery results = results"
  by (simp add: applyFilters_def tokenStage_def pairStage_def tradeTypeStage_def
        minValueStage_def anyQuery_def)

lemma anyQuery_chain: "\<not> truthy (q_chain anyQuery)"
  by (simp add: anyQuery_def)

lemma limit_only_filters: "applyFilters (anyQuery\<lparr>q_limit := l\<rparr>) results = results"
  by (simp add: applyFilters_def tokenStage_def pairStage_def tradeTypeStage_def
        minValueStage_def anyQuery_def)

lemma sort_one: "limitStage (limitOf anyQuery) (sortByTime [x]) = [x]"
  by (simp add: limitStage_def limitOf_def sortByTime_def anyQuery_def)

lemma selectSource_serving_any:
  "\<not> truthy (q_chain q) \<Longrightarrow> \<not> truthy (q_token q) \<Longrightarrow>
   fst (selectSource (serving ts) q) = Inr (ts, multiChainEndpoint, [''multi-chain''])"
  by (simp add: selectSource_multi fetchData_ok serving_def)

lemma groupable_on_base:
  "\<forall>trade \<in> set fetched. chain trade = Some ''base'' \<Longrightarrow> groupable q (selected q fetched)"
proof -
  assume a: "\<forall>trade \<in> set fetched. chain trade = Some ''base''"
  have "chainNameOf q trade \<notin> set objectPrototypeKeys" if "chain trade = Some ''base''" for trade
    using that by (simp add: chainNameOf_def orElse_def objectPrototypeKeys_def)
  then show ?thesis
    using a selected_subset [of q fetched] by (auto simp: groupable_def list_all_iff)
qed

lemma chain_samples [simp]:
  "chain wethUsdc = Some ''base''" "chain (tradeAt t) = Some ''base''"
  by (simp_all add: wethUsdc_def tradeAt_def sampleTrade_def)

lemma execute_serving_any:
  assumes "\<forall>trade \<in> set ts. chain trade = Some ''base''"
  shows "fst (execute (hostEnv (serving ts) t) anyQuery) =
     Success (answer (hostEnv (serving ts) t) anyQuery ts multiChainEndpoint [''multi-chain''])"
proof -
  have "fst (fetchData (fetch (hostEnv (serving ts) t)) (endpointOf anyQuery)) = Inr ts"
    by (simp add: hostEnv_def fetchData_ok serving_def)
  from execute_single_success [OF anyQuery_single this groupable_on_base [OF assms]]
  show ?thesis by (simp add: anyQuery_endpoint anyQuery_chain)
qed

lemma base_down_exhausts:
  "fetchWithRetry base_down (endpoint ''base'') =
     (Inl (Error ''Error'' ''Failed after 3 attempts. Last error: fetch failed''),
      [Request (endpoint ''base''), Sleep 1000, Request (endpoint ''base''), Sleep 2000,
       Request (endpoint ''base'')])"
  by (rule fetch_down) (simp add: base_down_def)

lemma base_empty_answers:
  "fetchWithRetry base_empty (endpoint ''base'') = (Inr (okWith []), [Request (endpoint ''base'')])"
  by (rule fetch_ok) (simp add: base_empty_def)

lemma hits_base_down:
  "chainHits base_down token c = (if c = ''base'' then [] else chainHits (serving [wethUsdc]) token c)"
proof (cases "c = ''base''")
  case True
  then show ?thesis by (simp add: chainHits_def base_down_exhausts)
next
  case False
  then show ?thesis by (simp add: chainHits_ok base_down_def serving_def)
qed

lemma hits_base_empty:
  "chainHits base_empty token c = (if c = ''base'' then [] else chainHits (serving [wethUsdc]) token c)"
  by (simp add: chainHits_ok base_empty_def serving_def)

lemma hits_down_empty: "chainHits base_down token = chainHits base_empty token"
  by (rule ext) (simp add: hits_base_down hits_base_empty)

lemma unreachable_exhausts:
  "fetchWithRetry unreachable url =
     (Inl (Error ''Error'' ''Failed after 3 attempts. Last error: fetch failed''),
      [Request url, Sleep 1000, Request url, Sleep 2000, Request url])"
  by (rule fetch_down) (simp add: unreachable_def)

lemma hits_unreachable: "concat (map (chainHits unreachable token) cs) = []"
  by (induction cs) (simp_all add: chainHits_def unreachable_exhausts)

lemma describesErrors_unreachable: "describesErrors unreachable"
  by (simp add: describesErrors_def unreachable_def)

lemma hits_serving_none:
  "\<forall>trade \<in> set ts. \<not> tokenMatches (trim (toLowerCase token)) trade \<Longrightarrow>
   concat (map (chainHits (serving ts) token) cs) = []"
  by (induction cs) (simp_all add: chainHits_ok serving_def)

lemma execute_on_base:
  assumes "fst (selectSource net q) = Inr (fetched, url, cc)"
    and "\<forall>trade \<in> set fetched. chain trade = Some ''base''"
  shows "fst (execute (hostEnv net t) q) = Success (answer (hostEnv net t) q fetched url cc)"
proof -
  have "fst (selectSource (fetch (hostEnv net t)) q) = Inr (fetched, url, cc)"
    using assms(1) by (simp add: hostEnv_def)
  from execute_selected [OF this groupable_on_base [OF assms(2)]] show ?thesis .
qed

lemma hits_serving_subset: "set (chainHits (serving ts) token c) \<subseteq> set ts"
  by (auto simp: chainHits_ok serving_def)

lemma hits_base_down_chain:
  "\<forall>trade \<in> set (concat (map (chainHits base_down token) cs)). chain trade = Some ''base''"
proof (intro ballI)
  fix trade
  assume "trade \<in> set (concat (map (chainHits base_down token) cs))"
  then obtain c where "trade \<in> set (chainHits base_down token c)" by auto
  then have "trade \<in> set (chainHits (serving [wethUsdc]) token c)"
    by (simp add: hits_base_down split: if_splits)
  then have "trade = wethUsdc" using hits_serving_subset [of "[wethUsdc]" token c] by auto
  then show "chain trade = Some ''base''" by simp
qed

lemma oddChain_not_groupable: "\<not> groupable anyQuery (selected anyQuery [oddChain])"
  by (simp add: selected_def anyQuery_filters sort_one groupable_def chainNameOf_def orElse_def
        oddChain_def objectPrototypeKeys_def)

lemma describesErrors_serving: "describesErrors (serving ts)"
  by (simp add: describesErrors_def serving_def okWith_def)

lemma mute_rethrown: "fetchWithRetry mute url = (Inl (Error ''Error'' []), [Request url])"
  by (simp add: fetchWithRetry_def retry_rethrow attempt_once_def mute_def isConnectionError_def)

section \<open>The claims\<close>

subsection \<open>C1: a response that is not OK\<close>

text \<open>
  C1 says that a response with a status outside 200 to 299 is retried like a connection
  error, up to three attempts.  The code throws \<open>HTTP <status>: <statusText>\<close> for such a
  response, with the comment that this triggers the retry, but the \<open>catch\<close> block
  retries only errors it takes for connection errors, and this message is none.  On a
  network that answers 500 once and 200 afterwards, \<open>fetchWithRetry\<close> sends one request
  and throws the HTTP error; on a network that resets the connection once and answers 200
  afterwards, it sleeps one second, asks again and returns the response.
\<close>

theorem http_error_not_retried:
  "fetchWithRetry http500_then_ok (endpoint ''base'') =
     (Inl (Error ''Error'' ''HTTP 500: Internal Server Error''), [Request (endpoint ''base'')]) \<and>
   fetchWithRetry reset_then_ok (endpoint ''base'') =
     (Inr (okWith [wethUsdc]),
      [Request (endpoint ''base''), Sleep 1000, Request (endpoint ''base'')])"
  by (simp add: fetchWithRetry_def fetchWithRetry_from.simps showNat.simps attempt_once_def
        http500_then_ok_def reset_then_ok_def ok_def okWith_def isConnectionError_def)

subsection \<open>C2: a source that exhausts its attempts\<close>

text \<open>
  C2 says that a source whose attempts are exhausted is recorded in a list
  \<open>failedSources\<close> with the reason.  The envelope has no such list.  In the cross-chain
  search a chain that fails on all three attempts is added to \<open>chainsChecked\<close> like
  every other chain, and the envelope is the very one the call returns when that chain
  answers with an empty array.
\<close>

theorem failed_source_looks_like_empty_source:
  "fst (execute (hostEnv base_down 1700000060000) tokenQuery) =
   fst (execute (hostEnv base_empty 1700000060000) tokenQuery) \<and>
   fst (fetchWithRetry base_down (endpoint ''base'')) =
     Inl (Error ''Error'' ''Failed after 3 attempts. Last error: fetch failed'') \<and>
   fst (fetchWithRetry base_empty (endpoint ''base'')) = Inr (okWith []) \<and>
   onSuccess r_chainsChecked (fst (execute (hostEnv base_down 1700000060000) tokenQuery)) =
     Some supportedChains"
proof -
  have a: "\<not> truthy (q_chain tokenQuery)" "truthy (q_token tokenQuery)"
    "\<not> truthy (q_pair tokenQuery)"
    using crossChain_tokenQuery by (simp_all add: crossChain_def)
  have sel: "fst (selectSource base_down tokenQuery) = fst (selectSource base_empty tokenQuery)"
    by (simp add: selectSource_cross [OF a] hits_down_empty)
  have env: "hostEnv base_down 1700000060000 =
      (hostEnv base_empty 1700000060000)\<lparr>fetch := base_down\<rparr>"
    by (simp add: hostEnv_def)
  have one: "fst (execute (hostEnv base_down 1700000060000) tokenQuery) =
      fst (execute (hostEnv base_empty 1700000060000) tokenQuery)"
    unfolding env using sel by (intro execute_same_selection) (simp add: hostEnv_def)
  have "fst (selectSource base_down tokenQuery) =
      Inr (concat (map (chainHits base_down (orElse (q_token tokenQuery) [])) supportedChains),
           ''multi-chain-search'', supportedChains)"
    by (rule selectSource_cross_fst [OF crossChain_tokenQuery])
  from execute_on_base [OF this hits_base_down_chain]
  have two: "onSuccess r_chainsChecked
      (fst (execute (hostEnv base_down 1700000060000) tokenQuery)) = Some supportedChains"
    by (simp add: onSuccess_def)
  show ?thesis using one two by (simp add: base_down_exhausts base_empty_answers)
qed

text \<open>
  C2 as amended: in the cross-chain search (a token, no chain, no pair) the failure of a
  source never aborts the call.  The chain selection always ends with the records the
  chains that answered have matched, every supported chain is requested and is listed as
  checked, and a chain whose fetch fails adds no record.  The call then returns the
  success envelope with \<open>chainsChecked\<close> and these records, filtered, sorted and
  truncated.  The one way to the failure envelope is the grouping, which throws when a
  record to return is filed under the name of a member of \<open>Object.prototype\<close>; no failure
  of a source leads there.
\<close>

theorem cross_chain_failures_absorbed:
  assumes "crossChain q"
  shows "let fetched = concat (map (chainHits (fetch e) (orElse (q_token q) [])) supportedChains)
         in fst (selectSource (fetch e) q) =
              Inr (fetched, ''multi-chain-search'', supportedChains) \<and>
            (\<forall>c err. fst (fetchWithRetry (fetch e) (endpoint c)) = Inl err \<longrightarrow>
                     chainHits (fetch e) (orElse (q_token q) []) c = []) \<and>
            (\<forall>c \<in> set supportedChains. Request (endpoint c) \<in> set (snd (execute e q))) \<and>
            (groupable q (selected q fetched) \<longrightarrow>
               (\<exists>r. fst (execute e q) = Success r \<and>
                    r_chainsChecked r = supportedChains \<and>
                    map f_raw (r_data r) = selected q fetched)) \<and>
            (\<not> groupable q (selected q fetched) \<longrightarrow>
               fst (execute e q) = Failure (failed e q pushError))"
proof -
  from assms have a: "\<not> truthy (q_chain q)" "truthy (q_token q)" "\<not> truthy (q_pair q)"
    by (simp_all add: crossChain_def)
  let ?fetched = "concat (map (chainHits (fetch e) (orElse (q_token q) [])) supportedChains)"
  have sel: "fst (selectSource (fetch e) q) = Inr (?fetched, ''multi-chain-search'', supportedChains)"
    by (rule selectSource_cross_fst [OF assms])
  have ev: "\<forall>c \<in> set supportedChains. Request (endpoint c) \<in> set (snd (execute e q))"
    using chainEvents_request by (auto simp: execute_snd selectSource_cross [OF a])
  have ok: "\<exists>r. fst (execute e q) = Success r \<and> r_chainsChecked r = supportedChains \<and>
                map f_raw (r_data r) = selected q ?fetched"
    if "groupable q (selected q ?fetched)"
    using execute_selected [OF sel that] by (simp add: selected_def)
  have ko: "fst (execute e q) = Failure (failed e q pushError)"
    if "\<not> groupable q (selected q ?fetched)"
    using execute_selected_throws [OF sel that] .
  show ?thesis unfolding Let_def using sel ev ok ko chainHits_failed by blast
qed

text \<open>
  An instance: the chain \<open>base\<close> is down for all three attempts and the others answer.
\<close>

theorem cross_chain_failures_absorbed_witness:
  "crossChain tokenQuery \<and>
   groupable tokenQuery
     (selected tokenQuery (concat (map (chainHits base_down ''WETH'') supportedChains))) \<and>
   onSuccess r_chainsChecked (fst (execute (hostEnv base_down 1700000060000) tokenQuery)) =
     Some supportedChains \<and>
   chainHits base_down ''WETH'' ''base'' = [] \<and>
   Request (endpoint ''blast'') \<in>
     set (snd (execute (hostEnv base_down 1700000060000) tokenQuery))"
proof -
  let ?e = "hostEnv base_down 1700000060000"
  let ?fetched = "concat (map (chainHits base_down ''WETH'') supportedChains)"
  have f: "fetch ?e = base_down" by (simp add: hostEnv_def)
  have t: "orElse (q_token tokenQuery) [] = ''WETH''"
    by (simp add: tokenQuery_def anyQuery_def orElse_def)
  have b: "fst (fetchWithRetry base_down (endpoint ''base'')) =
      Inl (Error ''Error'' ''Failed after 3 attempts. Last error: fetch failed'')"
    by (simp add: base_down_exhausts)
  have m: "''blast'' \<in> set supportedChains" by (simp add: supportedChains_def)
  have g: "groupable tokenQuery (selected tokenQuery ?fetched)"
    by (rule groupable_on_base [OF hits_base_down_chain])
  note w = cross_chain_failures_absorbed [OF crossChain_tokenQuery, of ?e, unfolded Let_def f t]
  from w g obtain r where r: "fst (execute ?e tokenQuery) = Success r"
      "r_chainsChecked r = supportedChains"
    by blast
  from w b have h: "chainHits base_down ''WETH'' ''base'' = []" by blast
  from w m have "Request (endpoint ''blast'') \<in> set (snd (execute ?e tokenQuery))" by blast
  then show ?thesis using r h g crossChain_tokenQuery by (simp add: onSuccess_def)
qed

subsection \<open>C3: when the filter stages run\<close>

text \<open>
  C3 says that the token stage runs whenever a token is given, whatever the other fields.
  The code runs it under \<open>token && chain\<close>, with the comment that it filters on a specific
  chain or on the multi-chain endpoint.  A query with a token and a pair but no chain goes
  to the multi-chain endpoint and skips the token stage: asked for the token PEPE and the
  pair WETH/USDC, the call returns a WETH/USDC trade, in which PEPE does not occur.  The
  same query with the chain named returns nothing.
\<close>

theorem token_filter_skipped_with_pair:
  "onSuccess (map f_raw \<circ> r_data)
     (fst (execute (hostEnv (serving [wethUsdc]) 1700000060000)
        (anyQuery\<lparr>q_token := Some ''PEPE'', q_pair := Some ''WETH/USDC''\<rparr>))) =
     Some [wethUsdc] \<and>
   \<not> tokenMatches (trim (toLowerCase ''PEPE'')) wethUsdc \<and>
   onSuccess (map f_raw \<circ> r_data)
     (fst (execute (hostEnv (serving [wethUsdc]) 1700000060000)
        (anyQuery\<lparr>q_chain := Some ''base'', q_token := Some ''PEPE'',
                   q_pair := Some ''WETH/USDC''\<rparr>))) =
     Some []"
proof -
  let ?e = "hostEnv (serving [wethUsdc]) 1700000060000"
  let ?q = "anyQuery\<lparr>q_token := Some ''PEPE'', q_pair := Some ''WETH/USDC''\<rparr>"
  let ?q' = "anyQuery\<lparr>q_chain := Some ''base'', q_token := Some ''PEPE'',
                        q_pair := Some ''WETH/USDC''\<rparr>"
  have sel: "fst (selectSource (serving [wethUsdc]) ?q) =
      Inr ([wethUsdc], multiChainEndpoint, [''multi-chain''])"
    by (simp add: selectSource_multi anyQuery_def fetchData_ok serving_def)
  have flt: "applyFilters ?q [wethUsdc] = [wethUsdc]"
    by (simp add: applyFilters_def tokenStage_def pairStage_def tradeTypeStage_def
          minValueStage_def anyQuery_def orElse_def wethUsdc_pair)
  have lim: "limitStage (limitOf ?q) (sortByTime [wethUsdc]) = [wethUsdc]"
    by (simp add: limitStage_def limitOf_def sortByTime_def anyQuery_def)
  have "fst (execute ?e ?q) =
      Success (answer ?e ?q [wethUsdc] multiChainEndpoint [''multi-chain''])"
    using execute_on_base [OF sel] by simp
  then have one: "onSuccess (map f_raw \<circ> r_data) (fst (execute ?e ?q)) = Some [wethUsdc]"
    by (simp add: onSuccess_def flt lim)
  have sel': "fst (selectSource (serving [wethUsdc]) ?q') =
      Inr ([wethUsdc], endpoint ''base'', [''base''])"
    by (simp add: selectSource_chain anyQuery_def fetchData_ok serving_def orElse_def)
  have flt': "applyFilters ?q' [wethUsdc] = []"
    using wethUsdc_no_pepe
    by (simp add: applyFilters_def tokenStage_def tokenFilter_def pairStage_def tradeTypeStage_def
          minValueStage_def anyQuery_def orElse_def pairFilter_def)
  have lim': "limitStage (limitOf ?q') (sortByTime []) = []"
    by (simp add: limitStage_def sortByTime_def)
  have "fst (execute ?e ?q') = Success (answer ?e ?q' [wethUsdc] (endpoint ''base'') [''base''])"
    using execute_on_base [OF sel'] by simp
  then have two: "onSuccess (map f_raw \<circ> r_data) (fst (execute ?e ?q')) = Some []"
    by (simp add: onSuccess_def flt' lim')
  show ?thesis using one two wethUsdc_no_pepe by simp
qed

subsection \<open>C4: the call always returns an envelope\<close>




subsection \<open>C5: calling twice\<close>

text \<open>
  C5 says that two calls with the same query on the same network return envelopes equal in
  every field.  The envelope carries the instant of the call in \<open>timestamp\<close>, and every
  formatted record carries its \<open>age\<close> at that instant.  The same query on the same
  network, asked one minute and one hour after the trade, gives two different envelopes.
\<close>

theorem clock_changes_the_result:
  "fst (execute (hostEnv (serving [wethUsdc]) 1700000060000) anyQuery) \<noteq>
   fst (execute (hostEnv (serving [wethUsdc]) 1700003600000) anyQuery) \<and>
   onSuccess r_timestamp (fst (execute (hostEnv (serving [wethUsdc]) 1700000060000) anyQuery)) =
     Some 1700000060000 \<and>
   onSuccess r_timestamp (fst (execute (hostEnv (serving [wethUsdc]) 1700003600000) anyQuery)) =
     Some 1700003600000 \<and>
   onSuccess (map f_age \<circ> r_data)
     (fst (execute (hostEnv (serving [wethUsdc]) 1700000060000) anyQuery)) = Some [''1m ago''] \<and>
   onSuccess (map f_age \<circ> r_data)
     (fst (execute (hostEnv (serving [wethUsdc]) 1700003600000) anyQuery)) = Some [''1h ago'']"
proof -
  let ?a = "fst (execute (hostEnv (serving [wethUsdc]) 1700000060000) anyQuery)"
  let ?b = "fst (execute (hostEnv (serving [wethUsdc]) 1700003600000) anyQuery)"
  have ta: "onSuccess r_timestamp ?a = Some 1700000060000"
    by (simp add: execute_serving_any onSuccess_def) (simp add: hostEnv_def)
  have tb: "onSuccess r_timestamp ?b = Some 1700003600000"
    by (simp add: execute_serving_any onSuccess_def) (simp add: hostEnv_def)
  have "?a \<noteq> ?b"
  proof
    assume "?a = ?b"
    then have "onSuccess r_timestamp ?a = onSuccess r_timestamp ?b" by (rule arg_cong)
    then show False unfolding ta tb by simp
  qed
  moreover have "onSuccess (map f_age \<circ> r_data) ?a = Some [''1m ago'']"
    by (simp add: execute_serving_any onSuccess_def respond_ages anyQuery_filters sort_one)
       (simp add: hostEnv_def wethUsdc_def sampleTrade_def getTimeAgo_def showInt_def
          showNat.simps)
  moreover have "onSuccess (map f_age \<circ> r_data) ?b = Some [''1h ago'']"
    by (simp add: execute_serving_any onSuccess_def respond_ages anyQuery_filters sort_one)
       (simp add: hostEnv_def wethUsdc_def sampleTrade_def getTimeAgo_def showInt_def
          showNat.simps)
  ultimately show ?thesis using ta tb by simp
qed

text \<open>
  C5 as amended: two calls that differ only in the instant at which they read the clock
  return envelopes that are equal once \<open>timestamp\<close> and the \<open>age\<close> of the
  formatted records are set aside; they return the same records in the same order and
  send the same requests.
\<close>

theorem same_result_up_to_the_clock:
  "clockless (fst (execute (e\<lparr>now := t\<rparr>) q)) = clockless (fst (execute e q)) \<and>
   onSuccess (map f_raw \<circ> r_data) (fst (execute (e\<lparr>now := t\<rparr>) q)) =
     onSuccess (map f_raw \<circ> r_data) (fst (execute e q)) \<and>
   snd (execute (e\<lparr>now := t\<rparr>) q) = snd (execute e q)"
proof (intro conjI)
  show "clockless (fst (execute (e\<lparr>now := t\<rparr>) q)) = clockless (fst (execute e q))"
  proof (cases "fst (selectSource (fetch e) q)")
    case (Inl err)
    then show ?thesis by (simp add: execute_fst clockless_failed_now)
  next
    case (Inr x)
    then show ?thesis
      by (cases x) (simp add: execute_fst clockless_respond_now clockless_failed_now)
  qed
  show "onSuccess (map f_raw \<circ> r_data) (fst (execute (e\<lparr>now := t\<rparr>) q)) =
      onSuccess (map f_raw \<circ> r_data) (fst (execute e q))"
  proof (cases "fst (selectSource (fetch e) q)")
    case (Inl err)
    then show ?thesis by (simp add: execute_fst onSuccess_def)
  next
    case (Inr x)
    then show ?thesis
      by (cases x) (simp add: execute_fst onSuccess_def)
  qed
  show "snd (execute (e\<lparr>now := t\<rparr>) q) = snd (execute e q)"
    by (simp add: execute_snd)
qed

subsection \<open>C6: the pair filter\<close>

text \<open>
  C6: for a pair written as two identifiers with one slash between them, the pair stage
  keeps exactly the records whose two symbols, in lower case (a missing symbol counts as
  the empty string), are the two identifiers in lower case, in either order.  The
  comparison is equality, not containment.  The pair is trimmed as a whole, so white space
  before the first identifier and after the second is dropped.
\<close>

theorem pair_filter_either_order:
  assumes "CHR ''/'' \<notin> set x" and "CHR ''/'' \<notin> set y" and "q_pair q = Some (x @ ''/'' @ y)"
  shows "pairStage q results =
     filter (\<lambda>trade.
               let s0 = lowerOrEmpty (symbol0 trade);
                   s1 = lowerOrEmpty (symbol1 trade);
                   a = trimStart (toLowerCase x);
                   b = trimEnd (toLowerCase y)
               in (s0 = a \<and> s1 = b) \<or> (s0 = b \<and> s1 = a)) results"
proof -
  have "pairStage q results = pairFilter (x @ ''/'' @ y) results"
    using assms(3) by (simp add: pairStage_def orElse_def)
  then show ?thesis
    by (simp add: pairFilter_slash [OF assms(1,2)] pairMatch_Some Let_def)
qed

text \<open>
  The instance of the specification: the pair AAA/BBB keeps (BBB, AAA) and (aaa, bbb) and
  drops (AAA, CCC).
\<close>

theorem pair_filter_either_order_witness:
  "CHR ''/'' \<notin> set ''AAA'' \<and> CHR ''/'' \<notin> set ''BBB'' \<and>
   pairStage (anyQuery\<lparr>q_pair := Some ''AAA/BBB''\<rparr>) [bbbAaa, aaaBbbLower, aaaCcc] =
     [bbbAaa, aaaBbbLower]"
proof -
  have q: "q_pair (anyQuery\<lparr>q_pair := Some ''AAA/BBB''\<rparr>) = Some (''AAA'' @ ''/'' @ ''BBB'')"
    by simp
  have x: "CHR ''/'' \<notin> set ''AAA''" and y: "CHR ''/'' \<notin> set ''BBB''" by simp_all
  show ?thesis
    using pair_filter_either_order [OF x y q, of "[bbbAaa, aaaBbbLower, aaaCcc]"]
    by (simp add: lower_samples lowerOrEmpty_def trimStart_def trimEnd_def isSpace_def
          bbbAaa_def aaaBbbLower_def aaaCcc_def sampleTrade_def)
qed

subsection \<open>C7: sorting and truncating\<close>



subsection \<open>C8: a query that names a chain\<close>

text \<open>
  C8: when the query names one of the supported chains, every request of the call goes to
  the endpoint of that chain, at least one request is sent, and the result is the same on
  every network that answers that endpoint the same way.
\<close>

theorem single_chain_only:
  assumes "c \<in> set supportedChains" and "q_chain q = Some c"
  shows "set (snd (execute e q)) \<subseteq> insert (Request (endpoint c)) (range Sleep) \<and>
         Request (endpoint c) \<in> set (snd (execute e q)) \<and>
         (\<forall>net. net (endpoint c) = fetch e (endpoint c) \<longrightarrow>
                execute (e\<lparr>fetch := net\<rparr>) q = execute e q)"
proof -
  have "c \<noteq> []" using assms(1) by (auto simp: supportedChains_def)
  then have t: "truthy (q_chain q)" and o: "orElse (q_chain q) [] = c"
    using assms(2) by (simp_all add: orElse_def)
  have ev: "snd (execute e q) = snd (fetchWithRetry (fetch e) (endpoint c))"
    by (simp add: execute_snd selectSource_chain_events [OF t] o)
  have one: "set (snd (execute e q)) \<subseteq> insert (Request (endpoint c)) (range Sleep)"
    unfolding ev fetchWithRetry_def by (rule fetchWithRetry_from_events)
  have two: "Request (endpoint c) \<in> set (snd (execute e q))"
    unfolding ev by (rule request_made)
  have three: "execute (e\<lparr>fetch := net\<rparr>) q = execute e q"
    if "net (endpoint c) = fetch e (endpoint c)" for net
  proof -
    have "selectSource net q = selectSource (fetch e) q"
      using fetchData_cong [of net "endpoint c" "fetch e"] that
      by (simp add: selectSource_chain [OF t] o)
    then show ?thesis by (rule execute_fetch_cong)
  qed
  show ?thesis using one two three by blast
qed

text \<open>
  An instance: the chain \<open>base\<close> on a network where no other endpoint can be reached.
\<close>

theorem single_chain_only_witness:
  "''base'' \<in> set supportedChains \<and>
   snd (execute (hostEnv (only_chain ''base'' [wethUsdc]) 1700000060000)
          (anyQuery\<lparr>q_chain := Some ''base''\<rparr>)) = [Request (endpoint ''base'')] \<and>
   execute (hostEnv (serving [wethUsdc]) 1700000060000) (anyQuery\<lparr>q_chain := Some ''base''\<rparr>) =
   execute (hostEnv (only_chain ''base'' [wethUsdc]) 1700000060000)
     (anyQuery\<lparr>q_chain := Some ''base''\<rparr>)"
proof -
  let ?e = "hostEnv (only_chain ''base'' [wethUsdc]) 1700000060000"
  let ?q = "anyQuery\<lparr>q_chain := Some ''base''\<rparr>"
  have m: "''base'' \<in> set supportedChains" by (simp add: supportedChains_def)
  have q: "q_chain ?q = Some ''base''" by simp
  have agree: "serving [wethUsdc] (endpoint ''base'') = fetch ?e (endpoint ''base'')"
    by (rule ext) (simp add: serving_def hostEnv_def only_chain_def)
  have env: "?e\<lparr>fetch := serving [wethUsdc]\<rparr> = hostEnv (serving [wethUsdc]) 1700000060000"
    by (simp add: hostEnv_def)
  have "snd (execute ?e ?q) = [Request (endpoint ''base'')]"
    by (simp add: execute_snd selectSource_chain_events orElse_def anyQuery_def hostEnv_def
          fetch_ok only_chain_def)
  moreover have "execute (?e\<lparr>fetch := serving [wethUsdc]\<rparr>) ?q = execute ?e ?q"
    using single_chain_only [OF m q, of ?e] agree by blast
  ultimately show ?thesis using m unfolding env by simp
qed

subsection \<open>C9: no match is not an error\<close>

text \<open>
  C9 says that a query that matches nothing on sources that have data returns a preview
  of the symbols available.  In the cross-chain search the symbols are collected from the
  records that already matched the token: when every chain has a WETH/USDC trade and the
  token is PEPE, the call succeeds with no record, an empty preview and a message that
  lists no symbol.  With the chain named, the same token on the same data gives the
  preview USDC, WETH.
\<close>

theorem preview_empty_in_cross_chain_search:
  "onSuccess r_success
     (fst (execute (hostEnv (serving [wethUsdc]) 1700000060000)
        (anyQuery\<lparr>q_token := Some ''PEPE''\<rparr>))) = Some True \<and>
   onSuccess r_count
     (fst (execute (hostEnv (serving [wethUsdc]) 1700000060000)
        (anyQuery\<lparr>q_token := Some ''PEPE''\<rparr>))) = Some 0 \<and>
   onSuccess r_availableSymbols
     (fst (execute (hostEnv (serving [wethUsdc]) 1700000060000)
        (anyQuery\<lparr>q_token := Some ''PEPE''\<rparr>))) = Some [] \<and>
   onSuccess r_message
     (fst (execute (hostEnv (serving [wethUsdc]) 1700000060000)
        (anyQuery\<lparr>q_token := Some ''PEPE''\<rparr>))) =
     Some ''No trades found matching your criteria. Available symbols: '' \<and>
   onSuccess r_count
     (fst (execute (hostEnv (serving [wethUsdc]) 1700000060000)
        (anyQuery\<lparr>q_chain := Some ''base'', q_token := Some ''PEPE''\<rparr>))) = Some 0 \<and>
   onSuccess r_availableSymbols
     (fst (execute (hostEnv (serving [wethUsdc]) 1700000060000)
        (anyQuery\<lparr>q_chain := Some ''base'', q_token := Some ''PEPE''\<rparr>))) =
     Some [''USDC'', ''WETH'']"
proof -
  let ?e = "hostEnv (serving [wethUsdc]) 1700000060000"
  let ?q = "anyQuery\<lparr>q_token := Some ''PEPE''\<rparr>"
  let ?q' = "anyQuery\<lparr>q_chain := Some ''base'', q_token := Some ''PEPE''\<rparr>"
  have cross: "crossChain ?q" by (simp add: crossChain_def anyQuery_def)
  have tok: "orElse (q_token ?q) [] = ''PEPE''" by (simp add: orElse_def)
  have hits: "concat (map (chainHits (serving [wethUsdc]) ''PEPE'') supportedChains) = []"
    by (rule hits_serving_none) (simp add: wethUsdc_no_pepe)
  have "fst (selectSource (serving [wethUsdc]) ?q) = Inr ([], ''multi-chain-search'', supportedChains)"
    using selectSource_cross_fst [OF cross, of "serving [wethUsdc]"] unfolding tok
    by (simp add: hits)
  from execute_on_base [OF this]
  have x: "fst (execute ?e ?q) = Success (answer ?e ?q [] ''multi-chain-search'' supportedChains)"
    by simp
  have f: "applyFilters ?q [] = []"
    by (simp add: applyFilters_def tokenStage_def pairStage_def tradeTypeStage_def
          minValueStage_def anyQuery_def)
  have single: "\<not> crossChain ?q'" by (simp add: crossChain_def anyQuery_def)
  have ep: "endpointOf ?q' = endpoint ''base''"
    by (simp add: endpointOf_def anyQuery_def orElse_def)
  have "fst (fetchData (fetch ?e) (endpointOf ?q')) = Inr [wethUsdc]"
    by (simp add: hostEnv_def fetchData_ok serving_def)
  from execute_single_success [OF single this groupable_on_base]
  obtain cc where y: "fst (execute ?e ?q') = Success (answer ?e ?q' [wethUsdc] (endpoint ''base'') cc)"
    unfolding ep by auto
  have f': "applyFilters ?q' [wethUsdc] = []"
    using wethUsdc_no_pepe
    by (simp add: applyFilters_def tokenStage_def tokenFilter_def pairStage_def tradeTypeStage_def
          minValueStage_def anyQuery_def orElse_def)
  have one: "onSuccess r_success (fst (execute ?e ?q)) = Some True"
    by (simp add: x onSuccess_def)
  have two: "onSuccess r_count (fst (execute ?e ?q)) = Some 0"
    using respond_empty [OF f] by (simp add: x onSuccess_def del: respond_fields)
  have three: "onSuccess r_availableSymbols (fst (execute ?e ?q)) = Some []"
    by (simp add: x onSuccess_def symbols_none)
  have four: "onSuccess r_message (fst (execute ?e ?q)) =
      Some ''No trades found matching your criteria. Available symbols: ''"
    by (simp add: x onSuccess_def respond_message_none [OF f] symbols_none)
  have five: "onSuccess r_count (fst (execute ?e ?q')) = Some 0"
    using respond_empty [OF f'] by (simp add: y onSuccess_def del: respond_fields)
  have six: "onSuccess r_availableSymbols (fst (execute ?e ?q')) = Some [''USDC'', ''WETH'']"
    by (simp add: y onSuccess_def symbols_wethUsdc)
  show ?thesis using one two three four five six by simp
qed

subsection \<open>C10: a pair without a slash\<close>

text \<open>
  C10: a pair that contains no slash matches no record.  The second component of the
  split is missing, and a symbol, which is a string even when absent from the record, never
  equals a missing value.  So the pair filter returns the empty list on every input, and a
  call that applies it returns no record.
\<close>

theorem pair_without_slash_matches_nothing:
  assumes "CHR ''/'' \<notin> set pair"
  shows "pairFilter pair results = [] \<and>
         (pair \<noteq> [] \<and> q_pair q = Some pair \<longrightarrow>
            applyFilters q results = [] \<and>
            (\<forall>r. fst (execute e q) = Success r \<longrightarrow> r_data r = [] \<and> r_count r = 0))"
proof -
  have a: "pairFilter pair results = []" for results
    using assms by (rule pairFilter_no_slash)
  have b: "applyFilters q results = []" if "pair \<noteq> []" "q_pair q = Some pair" for results
    using that by (simp add: applyFilters_def pairStage_def orElse_def a stages_empty)
  have c: "r_data r = [] \<and> r_count r = 0"
    if "pair \<noteq> []" "q_pair q = Some pair" "fst (execute e q) = Success r" for r
  proof -
    from execute_Success_respond [OF that(3)]
    obtain fetched url cc where "r = answer e q fetched url cc" by blast
    then show ?thesis using respond_empty [OF b [OF that(1,2)]] by simp
  qed
  show ?thesis using a b c by blast
qed

text \<open>An instance: the pair WETHUSDC against a WETH/USDC trade.\<close>

theorem pair_without_slash_matches_nothing_witness:
  "CHR ''/'' \<notin> set ''WETHUSDC'' \<and>
   pairFilter ''WETHUSDC'' [wethUsdc] = [] \<and>
   onSuccess r_data
     (fst (execute (hostEnv (serving [wethUsdc]) 1700000060000)
        (anyQuery\<lparr>q_pair := Some ''WETHUSDC''\<rparr>))) = Some [] \<and>
   onSuccess r_count
     (fst (execute (hostEnv (serving [wethUsdc]) 1700000060000)
        (anyQuery\<lparr>q_pair := Some ''WETHUSDC''\<rparr>))) = Some 0"
proof -
  let ?e = "hostEnv (serving [wethUsdc]) 1700000060000"
  let ?q = "anyQuery\<lparr>q_pair := Some ''WETHUSDC''\<rparr>"
  have x: "CHR ''/'' \<notin> set ''WETHUSDC''" by simp
  have nc: "\<not> crossChain ?q" by (simp add: crossChain_def anyQuery_def)
  have "fst (fetchData (fetch ?e) (endpointOf ?q)) = Inr [wethUsdc]"
    by (simp add: hostEnv_def fetchData_ok serving_def)
  from execute_single_success [OF nc this groupable_on_base]
  obtain r where r: "fst (execute ?e ?q) = Success r" by auto
  have "pairFilter ''WETHUSDC'' [wethUsdc] = [] \<and> r_data r = [] \<and> r_count r = 0"
    using pair_without_slash_matches_nothing [OF x, of "[wethUsdc]" ?q ?e] r by simp
  then show ?thesis using r by (simp add: onSuccess_def)
qed

end
